theory Spec2Isabelle
  imports Complex_Main "HOL-Library.AList" "HOL-Library.Char_ord"
begin

section \<open>Python text\<close>

text \<open>
  A Python \<open>str\<close> is modelled as a \<open>string\<close> whose characters are the code points
  below 256 (Latin-1), so that the no-break space U+00A0 the source replaces is the
  character \<open>0xA0\<close>.  Code points above 255 are outside the model.  The character
  classes below are the ones of \<open>str.isspace\<close>, \<open>str.isalnum\<close> and of the \<open>re\<close>
  module on \<open>str\<close> patterns (\<open>\s\<close>, \<open>\d\<close>, \<open>\w\<close>), cut down to that range.
  Characters are ordered by their code points.
\<close>

definition in_range :: "char \<Rightarrow> char \<Rightarrow> char \<Rightarrow> bool" where
  "in_range lo hi c = (lo \<le> c \<and> c \<le> hi)"

definition is_space :: "char \<Rightarrow> bool" where
  "is_space c = (in_range (CHR 0x09) (CHR 0x0D) c \<or> in_range (CHR 0x1C) (CHR 0x20) c
                 \<or> c = CHR 0x85 \<or> c = CHR 0xA0)"

definition is_digit :: "char \<Rightarrow> bool" where
  "is_digit c = in_range CHR ''0'' CHR ''9'' c"

definition is_ascii_alnum :: "char \<Rightarrow> bool" where
  "is_ascii_alnum c = (is_digit c \<or> in_range CHR ''A'' CHR ''Z'' c \<or> in_range CHR ''a'' CHR ''z'' c)"

definition is_alnum :: "char \<Rightarrow> bool" where
  "is_alnum c = (is_ascii_alnum c \<or> c = CHR 0xAA \<or> c = CHR 0xB2 \<or> c = CHR 0xB3 \<or> c = CHR 0xB5
     \<or> c = CHR 0xB9 \<or> c = CHR 0xBA \<or> in_range (CHR 0xBC) (CHR 0xBE) c
     \<or> in_range (CHR 0xC0) (CHR 0xD6) c \<or> in_range (CHR 0xD8) (CHR 0xF6) c \<or> CHR 0xF8 \<le> c)"

definition is_word :: "char \<Rightarrow> bool" where
  "is_word c = (is_alnum c \<or> c = CHR ''_'')"

text \<open>
  The two cases of a letter differ by 32, which is bit 5 of the code point:
  \<open>A\<close>--\<open>Z\<close>, \<open>0xC0\<close>--\<open>0xD6\<close> and \<open>0xD8\<close>--\<open>0xDE\<close> are the upper-case letters that have a
  lower-case form below 256.
\<close>

fun set_bit5 :: "bool \<Rightarrow> char \<Rightarrow> char" where
  "set_bit5 v (Char b0 b1 b2 b3 b4 b5 b6 b7) = Char b0 b1 b2 b3 b4 v b6 b7"

definition has_lower :: "char \<Rightarrow> bool" where
  "has_lower c = (in_range CHR ''A'' CHR ''Z'' c \<or> in_range (CHR 0xC0) (CHR 0xD6) c
                  \<or> in_range (CHR 0xD8) (CHR 0xDE) c)"

definition has_upper :: "char \<Rightarrow> bool" where
  "has_upper c = (in_range CHR ''a'' CHR ''z'' c \<or> in_range (CHR 0xE0) (CHR 0xF6) c
                  \<or> in_range (CHR 0xF8) (CHR 0xFE) c)"

definition lower_char :: "char \<Rightarrow> char" where
  "lower_char c = (if has_lower c then set_bit5 True c else c)"

definition py_lower :: "string \<Rightarrow> string" where
  "py_lower s = map lower_char s"

text \<open>
  \<open>str.upper\<close> turns the sharp s (\<open>0xDF\<close>) into \<open>SS\<close>.  The upper-case forms of \<open>0xB5\<close>
  and \<open>0xFF\<close> lie above 255; they stand for themselves here, which no comparison of the
  source with an ASCII constant can tell apart.  \<open>str.casefold\<close> likewise turns \<open>0xDF\<close>
  into \<open>ss\<close>.
\<close>

definition upper_char :: "char \<Rightarrow> string" where
  "upper_char c = (if has_upper c then [set_bit5 False c]
                   else if c = CHR 0xDF then ''SS'' else [c])"

definition py_upper :: "string \<Rightarrow> string" where
  "py_upper s = concat (map upper_char s)"

definition casefold :: "string \<Rightarrow> string" where
  "casefold s = concat (map (\<lambda>c. if c = CHR 0xDF then ''ss'' else [lower_char c]) s)"

definition lstrip :: "string \<Rightarrow> string" where
  "lstrip s = dropWhile is_space s"

definition rstrip :: "string \<Rightarrow> string" where
  "rstrip s = rev (dropWhile is_space (rev s))"

definition strip :: "string \<Rightarrow> string" where
  "strip s = rstrip (lstrip s)"

definition strip_chars :: "char \<Rightarrow> string \<Rightarrow> string" where
  "strip_chars x s = rev (dropWhile (\<lambda>c. c = x) (rev (dropWhile (\<lambda>c. c = x) s)))"

definition replace_char :: "char \<Rightarrow> string \<Rightarrow> string \<Rightarrow> string" where
  "replace_char x r s = concat (map (\<lambda>c. if c = x then r else [c]) s)"

definition nbsp :: char where
  "nbsp = CHR 0xA0"

fun startswith :: "string \<Rightarrow> string \<Rightarrow> bool" where
  "startswith s [] = True"
| "startswith [] (p # ps) = False"
| "startswith (c # cs) (p # ps) = (c = p \<and> startswith cs ps)"

fun contains :: "string \<Rightarrow> string \<Rightarrow> bool" where
  "contains [] p = (p = [])"
| "contains (c # cs) p = (startswith (c # cs) p \<or> contains cs p)"

text \<open>\<open>" ".join(parts)\<close>\<close>

fun join_sp :: "string list \<Rightarrow> string" where
  "join_sp [] = []"
| "join_sp [x] = x"
| "join_sp (x # y # ys) = x @ '' '' @ join_sp (y # ys)"

text \<open>\<open>s or ""\<close> for an optional string.\<close>

definition or_empty :: "string option \<Rightarrow> string" where
  "or_empty s = (case s of None \<Rightarrow> [] | Some t \<Rightarrow> t)"

text \<open>\<open>list(dict.fromkeys(xs))\<close>: the first occurrence of every element, in order.\<close>

definition fromkeys :: "'a list \<Rightarrow> 'a list" where
  "fromkeys xs = rev (remdups (rev xs))"

section \<open>Regular expressions\<close>

text \<open>
  The patterns of the source are written as terms of \<open>rx\<close> and run by a backtracking
  matcher in the order of the \<open>re\<close> module: the left alternative first, as many
  repetitions as possible first.  A matcher state is the character before the current
  position (for \<open>\b\<close> and \<open>^\<close>) and the text that remains.
\<close>

datatype rx =
    Eps
  | Sym "char \<Rightarrow> bool"
  | Seq rx rx
  | Alt rx rx
  | Star rx
  | WordB
  | Bol
  | Eol

type_synonym rx_state = "char option \<times> string"

fun star_iter :: "(rx_state \<Rightarrow> rx_state list) \<Rightarrow> nat \<Rightarrow> rx_state \<Rightarrow> rx_state list" where
  "star_iter f 0 st = [st]"
| "star_iter f (Suc n) st =
     concat (map (star_iter f n) (filter (\<lambda>st'. length (snd st') < length (snd st)) (f st))) @ [st]"

definition word_before :: "char option \<Rightarrow> bool" where
  "word_before pc = (case pc of None \<Rightarrow> False | Some c \<Rightarrow> is_word c)"

definition word_after :: "string \<Rightarrow> bool" where
  "word_after s = (case s of [] \<Rightarrow> False | c # _ \<Rightarrow> is_word c)"

lemma star_iter_cong [fundef_cong]:
  "(\<And>x. f x = g x) \<Longrightarrow> n = m \<Longrightarrow> st = st' \<Longrightarrow> star_iter f n st = star_iter g m st'"
proof -
  assume "\<And>x. f x = g x"
  then have "f = g" by (simp add: fun_eq_iff)
  moreover assume "n = m" "st = st'"
  ultimately show ?thesis by simp
qed

fun run :: "rx \<Rightarrow> rx_state \<Rightarrow> rx_state list" where
  "run Eps st = [st]"
| "run (Sym p) st = (case snd st of [] \<Rightarrow> [] | c # cs \<Rightarrow> if p c then [(Some c, cs)] else [])"
| "run (Seq a b) st = concat (map (run b) (run a st))"
| "run (Alt a b) st = run a st @ run b st"
| "run (Star a) st = star_iter (run a) (length (snd st)) st"
| "run WordB st = (if word_before (fst st) \<noteq> word_after (snd st) then [st] else [])"
| "run Bol st = (if fst st = None then [st] else [])"
| "run Eol st = (if snd st = [] then [st] else [])"

text \<open>\<open>pat.match(s)\<close>, \<open>pat.fullmatch(s)\<close> and \<open>pat.search(s)\<close>, as truth values.\<close>

definition rx_match :: "rx \<Rightarrow> string \<Rightarrow> bool" where
  "rx_match r s = (run r (None, s) \<noteq> [])"

definition rx_fullmatch :: "rx \<Rightarrow> string \<Rightarrow> bool" where
  "rx_fullmatch r s = list_ex (\<lambda>st. snd st = []) (run r (None, s))"

fun search_from :: "rx \<Rightarrow> char option \<Rightarrow> string \<Rightarrow> bool" where
  "search_from r pc [] = (run r (pc, []) \<noteq> [])"
| "search_from r pc (c # cs) =
     (if run r (pc, c # cs) \<noteq> [] then True else search_from r (Some c) cs)"

definition rx_search :: "rx \<Rightarrow> string \<Rightarrow> bool" where
  "rx_search r s = search_from r None s"

text \<open>
  \<open>len(pat.findall(s))\<close> and \<open>pat.sub(repl, s)\<close>: the matches are taken from left to
  right without overlap; \<open>k\<close> counts the characters of the text still covered by the
  match found last.  The patterns the source uses with them match no empty text.
\<close>

fun count_from :: "rx \<Rightarrow> char option \<Rightarrow> string \<Rightarrow> nat \<Rightarrow> nat" where
  "count_from r pc [] k = 0"
| "count_from r pc (c # cs) k =
     (if 0 < k then count_from r (Some c) cs (k - 1)
      else (case run r (pc, c # cs) of
              [] \<Rightarrow> count_from r (Some c) cs 0
            | st # _ \<Rightarrow> Suc (count_from r (Some c) cs (length cs - length (snd st)))))"

definition rx_count :: "rx \<Rightarrow> string \<Rightarrow> nat" where
  "rx_count r s = count_from r None s 0"

fun sub_from :: "rx \<Rightarrow> string \<Rightarrow> char option \<Rightarrow> string \<Rightarrow> nat \<Rightarrow> string" where
  "sub_from r repl pc [] k = []"
| "sub_from r repl pc (c # cs) k =
     (if 0 < k then sub_from r repl (Some c) cs (k - 1)
      else (case run r (pc, c # cs) of
              [] \<Rightarrow> c # sub_from r repl (Some c) cs 0
            | st # _ \<Rightarrow>
                if length (snd st) < length (c # cs)
                then repl @ sub_from r repl (Some c) cs (length cs - length (snd st))
                else c # sub_from r repl (Some c) cs 0))"

definition rx_sub :: "rx \<Rightarrow> string \<Rightarrow> string \<Rightarrow> string" where
  "rx_sub r repl s = sub_from r repl None s 0"

text \<open>Pattern building blocks.\<close>

definition lit :: "char \<Rightarrow> rx" where
  "lit c = Sym (\<lambda>x. x = c)"

definition lit_i :: "char \<Rightarrow> rx" where
  "lit_i c = Sym (\<lambda>x. lower_char x = lower_char c)"

definition seqs :: "rx list \<Rightarrow> rx" where
  "seqs rs = foldr Seq rs Eps"

fun alts :: "rx list \<Rightarrow> rx" where
  "alts [] = Sym (\<lambda>_. False)"
| "alts [r] = r"
| "alts (r # rs) = Alt r (alts rs)"

definition rx_plus :: "rx \<Rightarrow> rx" where
  "rx_plus r = Seq r (Star r)"

definition rx_opt :: "rx \<Rightarrow> rx" where
  "rx_opt r = Alt r Eps"

text \<open>\<open>r{n}\<close> and \<open>r{0,n}\<close>\<close>

fun rx_times :: "nat \<Rightarrow> rx \<Rightarrow> rx" where
  "rx_times 0 r = Eps"
| "rx_times (Suc n) r = Seq r (rx_times n r)"

fun rx_upto :: "nat \<Rightarrow> rx \<Rightarrow> rx" where
  "rx_upto 0 r = Eps"
| "rx_upto (Suc n) r = Alt (Seq r (rx_upto n r)) Eps"

definition rx_space :: rx where
  "rx_space = Sym is_space"

definition rx_digit :: rx where
  "rx_digit = Sym is_digit"

text \<open>A literal text, exact (\<open>re.escape(k)\<close>) or under \<open>re.IGNORECASE\<close>.\<close>

definition str_x :: "string \<Rightarrow> rx" where
  "str_x s = seqs (map lit s)"

definition str_i :: "string \<Rightarrow> rx" where
  "str_i s = seqs (map lit_i s)"

text \<open>Words separated by \<open>\s+\<close>, under \<open>re.IGNORECASE\<close>: \<open>Khyber\s+Pakhtunkhwa\<close>.\<close>

fun phrase :: "string list \<Rightarrow> rx" where
  "phrase [] = Eps"
| "phrase [w] = str_i w"
| "phrase (w # ws) = Seq (str_i w) (Seq (rx_plus rx_space) (phrase ws))"

text \<open>\<open>\b(a|b|...)\b\<close>\<close>

definition word_alts :: "rx list \<Rightarrow> rx" where
  "word_alts rs = Seq WordB (Seq (alts rs) WordB)"

section \<open>Python values and the library\<close>

text \<open>
  The values a JSON document or a dictionary of the program holds.  A \<open>dict\<close> is an
  association list in insertion order; a \<open>float\<close> is a real number, so rounding is
  outside the model.
\<close>

datatype pyval =
    PNone
  | PBool bool
  | PInt int
  | PFloat real
  | PStr string
  | PList "pyval list"
  | PDict "(string \<times> pyval) list"

type_synonym pydict = "(string \<times> pyval) list"

text \<open>Python's truth value of an object, as \<open>x or y\<close> and \<open>if not x\<close> test it.\<close>

fun truthy :: "pyval \<Rightarrow> bool" where
  "truthy PNone = False"
| "truthy (PBool b) = b"
| "truthy (PInt i) = (i \<noteq> 0)"
| "truthy (PFloat x) = (x \<noteq> 0)"
| "truthy (PStr s) = (s \<noteq> [])"
| "truthy (PList xs) = (xs \<noteq> [])"
| "truthy (PDict d) = (d \<noteq> [])"

text \<open>\<open>d.get(k, default)\<close> and \<open>d[k] = v\<close>\<close>

definition dict_get :: "pydict \<Rightarrow> string \<Rightarrow> pyval \<Rightarrow> pyval" where
  "dict_get d k dflt = (case map_of d k of None \<Rightarrow> dflt | Some v \<Rightarrow> v)"

definition dict_set :: "pydict \<Rightarrow> string \<Rightarrow> pyval \<Rightarrow> pydict" where
  "dict_set d k v = AList.update k v d"

text \<open>
  The exceptions that leave a function of the program.  \<open>OutsideModel\<close> marks a value
  that the typed records of this model cannot hold.
\<close>

datatype py_error =
    RuntimeError string
  | ValueError string
  | TypeError
  | AttributeError
  | OutsideModel

text \<open>A calendar date, \<open>datetime.date\<close>.\<close>

record date =
  year :: nat
  month :: nat
  day :: nat

text \<open>
  The functions of the Python library and of the machine the program calls, taken as
  parameters: \<open>datetime.fromisoformat(s).date()\<close> (the date as written),
  \<open>datetime.fromisoformat(s)\<close> moved to UTC (a value without zone taken as UTC),
  \<open>float(s)\<close> and \<open>int(s)\<close> on a text, \<open>str(v)\<close> on a value that is not a text,
  \<open>json.loads\<close>, and the hexadecimal SHA-256 digest of the UTF-8 encoding of a text.
  Each is \<open>None\<close> where the library raises.
\<close>

record pylib =
  fromisoformat_date :: "string \<Rightarrow> date option"
  fromisoformat_utc_date :: "string \<Rightarrow> date option"
  float_of_str :: "string \<Rightarrow> real option"
  int_of_str :: "string \<Rightarrow> int option"
  str_of :: "pyval \<Rightarrow> string"
  json_loads :: "string \<Rightarrow> pyval option"
  sha256_hexdigest :: "string \<Rightarrow> string"

section \<open>fetcher.py: the records\<close>

text \<open>The dataclasses \<open>FetchResult\<close> and \<open>RSSItem\<close> of the fetcher.\<close>

record FetchResult =
  ok :: bool
  status :: "int option"
  error :: "string option"
  content_type :: string
  insecure_tls_used :: bool
  sniff :: string

record RSSItem =
  url :: string
  title :: string
  summary :: string
  author :: string
  published_at :: "string option"

section \<open>models.py\<close>

record Endpoint =
  type :: string
  url :: string
  note' :: string
  enabled :: bool
  last_status :: string
  last_error :: string

record Source =
  country :: string
  name :: string
  endpoints :: "Endpoint list"
  enabled :: bool

record Article =
  id' :: string
  country :: string
  source_name :: string
  source_slug :: string
  url :: string
  title :: string
  published_at :: "string option"
  author :: "string option"
  summary :: "string option"
  content_text :: "string option"
  content_length :: int
  extraction_method :: string
  extraction_notes :: "string list"
  run_id :: "string option"
  run_created_at :: "string option"
  fetched_at :: "string option"
  keywords_matched :: "string list"
  keywords_national_matched :: "string list"
  keywords_threat_matched :: "string list"
  national_relevant :: "bool option"
  threat_relevant :: "bool option"
  shortlisted :: "bool option"
  kw_national_hits :: "string list"
  kw_threat_hits :: "string list"
  relevance_score :: "real option"
  evidence_strength :: "string option"
  evidence_numeric :: "real option"
  urgency_score :: "real option"
  keyword_intensity :: "real option"
  prepriority_score :: "real option"
  prepriority_bucket :: "string option"
  threat_score :: "real option"
  threat_level :: "string option"
  threat_vector :: "string option"
  one_liner_threat :: "string option"
  reasons :: "string list"
  risk_index :: "real option"
  truth_score :: "real option"
  truth_label :: "string option"
  truth_reasons :: "string list"
  threat_factors :: "string list"
  raw :: pydict

section \<open>analysis\_layers.py: utilities\<close>

definition safe_text :: "string option \<Rightarrow> string" where
  "safe_text s = strip (replace_char nbsp '' '' (or_empty s))"

definition normalize_ws :: "string \<Rightarrow> string" where
  "normalize_ws s = strip (rx_sub (rx_plus rx_space) '' '' (safe_text (Some s)))"

definition haystack :: "Article \<Rightarrow> string" where
  "haystack a = normalize_ws (join_sp
     [title a, or_empty (summary a), or_empty (content_text a), Article.url a, or_empty (author a)])"

definition clamp :: "real \<Rightarrow> real \<Rightarrow> real \<Rightarrow> real" where
  "clamp x lo hi = max lo (min hi x)"

definition prepriority_bucket_of :: "real option \<Rightarrow> string" where
  "prepriority_bucket_of v = (case v of
       None \<Rightarrow> ''LOW''
     | Some x \<Rightarrow> if x \<ge> 80 then ''CRITICAL'' else if x \<ge> 60 then ''HIGH''
                else if x \<ge> 40 then ''MEDIUM'' else ''LOW'')"

text \<open>
  \<open>_try_parse_iso_date\<close>.  \<open>datetime.strptime(t, "%Y-%m-%d").date()\<close> on a text of the
  shape \<open>dddd-dd-dd\<close> succeeds exactly on the dates of the proleptic Gregorian calendar
  from year 1 on.
\<close>

definition digits_to_nat :: "string \<Rightarrow> nat" where
  "digits_to_nat s = foldl (\<lambda>n c. 10 * n + (of_char c - 48)) 0 s"

definition is_leap :: "nat \<Rightarrow> bool" where
  "is_leap y = (y mod 4 = 0 \<and> (y mod 100 \<noteq> 0 \<or> y mod 400 = 0))"

definition days_in_month :: "nat \<Rightarrow> nat \<Rightarrow> nat" where
  "days_in_month y m =
     (if m = 2 then (if is_leap y then 29 else 28)
      else if m = 4 \<or> m = 6 \<or> m = 9 \<or> m = 11 then 30 else 31)"

definition valid_date :: "nat \<Rightarrow> nat \<Rightarrow> nat \<Rightarrow> bool" where
  "valid_date y m d = (1 \<le> y \<and> y \<le> 9999 \<and> 1 \<le> m \<and> m \<le> 12 \<and> 1 \<le> d \<and> d \<le> days_in_month y m)"

definition strptime_ymd :: "string \<Rightarrow> date option" where
  "strptime_ymd t =
     (let y = digits_to_nat (take 4 t);
          m = digits_to_nat (take 2 (drop 5 t));
          d = digits_to_nat (take 2 (drop 8 t))
      in if valid_date y m d then Some \<lparr>year = y, month = m, day = d\<rparr> else None)"

text \<open>\<open>date.toordinal()\<close>, the day number that date subtraction works on.\<close>

definition days_before_year :: "nat \<Rightarrow> nat" where
  "days_before_year y = (y - 1) * 365 + (y - 1) div 4 - (y - 1) div 100 + (y - 1) div 400"

definition days_before_month :: "nat \<Rightarrow> nat \<Rightarrow> nat" where
  "days_before_month y m = sum_list (map (days_in_month y) [1..<m])"

definition toordinal :: "date \<Rightarrow> int" where
  "toordinal d = int (days_before_year (year d) + days_before_month (year d) (month d) + day d)"

definition DATE_FULL_PAT :: rx where
  "DATE_FULL_PAT = seqs [Bol, rx_times 4 rx_digit, lit CHR ''-'', rx_times 2 rx_digit,
                         lit CHR ''-'', rx_times 2 rx_digit, Eol]"

definition DATE_PREFIX_PAT :: rx where
  "DATE_PREFIX_PAT = seqs [Bol, rx_times 4 rx_digit, lit CHR ''-'', rx_times 2 rx_digit,
                           lit CHR ''-'', rx_times 2 rx_digit]"

definition try_parse_iso_date :: "pylib \<Rightarrow> string option \<Rightarrow> date option" where
  "try_parse_iso_date L s =
     (case s of
        None \<Rightarrow> None
      | Some s0 \<Rightarrow>
          let t = strip s0 in
          if t = [] then None
          else if rx_match DATE_FULL_PAT t then strptime_ymd t
          else (case fromisoformat_date L (replace_char CHR ''Z'' ''+00:00'' t) of
                  Some d \<Rightarrow> Some d
                | None \<Rightarrow> if rx_match DATE_PREFIX_PAT t then strptime_ymd (take 10 t) else None))"

section \<open>analysis\_layers.py: Layer 2\<close>

text \<open>The compiled patterns, all under \<open>re.IGNORECASE\<close>.\<close>

definition PAK_LOCATION_PAT :: rx where
  "PAK_LOCATION_PAT = word_alts (map phrase
     [[''Islamabad''], [''Rawalpindi''], [''Karachi''], [''Lahore''], [''Peshawar''], [''Quetta''],
      [''Multan''], [''Faisalabad''], [''Gwadar''], [''Gilgit''], [''Skardu''], [''Muzaffarabad''],
      [''Mirpur''], [''Kashmir''], [''Balochistan''], [''Sindh''], [''Punjab''],
      [''Khyber'', ''Pakhtunkhwa''], [''KP''], [''GB''], [''AJK''], [''FATA'']])"

definition PAK_SECURITY_PAT :: rx where
  "PAK_SECURITY_PAT = word_alts
     [phrase [''Pakistan'', ''Army''], phrase [''Pak'', ''Army''], phrase [''PAF''],
      phrase [''Pakistan'', ''Air'', ''Force''], phrase [''Pakistan'', ''Navy''], phrase [''ISI''],
      phrase [''ISPR''], phrase [''DG'', ''ISPR''], phrase [''FIA''], Seq (str_i ''IB'') WordB,
      phrase [''Intelligence'', ''Bureau''], phrase [''CTD''],
      phrase [''Counter'', ''Terrorism'', ''Department''], phrase [''Rangers''],
      phrase [''Frontier'', ''Corps''], Seq (str_i ''FC'') WordB, phrase [''NADRA''],
      phrase [''Police''], phrase [''Sindh'', ''Police''], phrase [''Punjab'', ''Police''],
      phrase [''KPK'', ''Police''], phrase [''Balochistan'', ''Police'']]"

definition whole_word :: "string \<Rightarrow> rx" where
  "whole_word w = Seq WordB (Seq (str_i w) WordB)"

definition QUOTE_ATTRIB_PAT :: rx where
  "QUOTE_ATTRIB_PAT = Seq
     (alts [whole_word ''said'', whole_word ''stated'', whole_word ''told'',
            whole_word ''according to'', whole_word ''added''])
     (Seq (rx_plus rx_space) (rx_upto 80 (Sym (\<lambda>c. c \<noteq> CHR ''.''))))"

definition CITATION_PAT :: rx where
  "CITATION_PAT = word_alts (map phrase
     [[''report''], [''statement''], [''press'', ''release''], [''briefing''], [''dossier''],
      [''white'', ''paper''], [''document''], [''UN''], [''United'', ''Nations''], [''FATF''],
      [''IMF''], [''World'', ''Bank''], [''court''], [''police'', ''report''], [''investigation'']])"

definition NUMERIC_PAT :: rx where
  "NUMERIC_PAT = Alt
     (Seq WordB (Seq (Seq rx_digit (rx_upto 3 rx_digit)) WordB))
     (Seq WordB (Seq (Seq rx_digit (rx_upto 2 rx_digit))
        (Seq (rx_plus (Seq (lit CHR '','') (rx_times 3 rx_digit))) WordB)))"

definition NAMED_ENTITY_PAT :: rx where
  "NAMED_ENTITY_PAT = word_alts (map phrase
     [[''Prime'', ''Minister''], [''President''], [''Chief'', ''Minister''],
      [''Interior'', ''Minister''], [''Foreign'', ''Minister''], [''Army'', ''Chief''], [''COAS''],
      [''DG'', ''ISPR''], [''spokesperson''], [''commissioner''], [''inspector''], [''IG''],
      [''DIG''], [''Ministry''], [''Ministries''], [''Department''], [''Court''],
      [''High'', ''Court''], [''Supreme'', ''Court''], [''Parliament''], [''Senate''],
      [''Assembly''], [''Police''], [''Rangers''], [''Army''], [''Navy''], [''Air'', ''Force''],
      [''FIA''], [''NADRA''], [''ISPR''], [''UN''], [''IMF''], [''FATF''], [''World'', ''Bank'']])"

definition PLACE_KIND_PAT :: rx where
  "PLACE_KIND_PAT = word_alts (map phrase
     [[''city''], [''district''], [''province''], [''village''], [''tehsil'']])"

definition count_explicit_pakistan_mentions :: "string \<Rightarrow> nat" where
  "count_explicit_pakistan_mentions text = rx_count (whole_word ''Pakistan'') text"

text \<open>\<open>list(a.kw_national_hits or []) or list(a.keywords_national_matched or [])\<close>\<close>

definition list_or :: "'a list \<Rightarrow> 'a list \<Rightarrow> 'a list" where
  "list_or xs ys = (if xs \<noteq> [] then xs else ys)"

definition compute_relevance :: "Article \<Rightarrow> real" where
  "compute_relevance a =
     (let kw_nat = list_or (kw_national_hits a) (keywords_national_matched a);
          N = min (length kw_nat) 10;
          hay = haystack a;
          P = min (count_explicit_pakistan_mentions hay) 5;
          L = (if rx_search PAK_LOCATION_PAT hay \<or> rx_search PAK_SECURITY_PAT hay then 1 else 0);
          S = (if py_upper (strip (Article.country a)) = ''PAKISTAN'' then 10 else 0)
      in min 100 (10 * real N + 8 * real P + 25 * L + S))"

text \<open>
  Of the four quotation marks \<open>_evidence_points\<close> looks for, only the ASCII one lies
  below 256; the three typographic ones cannot occur in a text of this model.
\<close>

definition evidence_points :: "Article \<Rightarrow> int" where
  "evidence_points a =
     (let hay = haystack a;
          p1 = (if rx_search NAMED_ENTITY_PAT hay then 2 else 0);
          p2 = (if rx_search NUMERIC_PAT hay then 2 else 0);
          p3 = (if rx_search PAK_LOCATION_PAT hay \<or> rx_search PLACE_KIND_PAT hay then 2 else 0);
          p4 = (if rx_search CITATION_PAT hay then 2 else 0);
          p5 = (if contains hay [CHR 0x22] \<and> rx_search QUOTE_ATTRIB_PAT hay then 2 else 0)
      in max 0 (min 10 (p1 + p2 + p3 + p4 + p5)))"

definition evidence_bucket_and_numeric :: "int \<Rightarrow> string \<times> real" where
  "evidence_bucket_and_numeric points =
     (if points \<le> 3 then (''LOW'', 25) else if points \<le> 7 then (''MED'', 60) else (''HIGH'', 90))"

text \<open>\<open>today\<close> is \<open>_today_utc()\<close>, the date of the run.\<close>

definition age_days :: "pylib \<Rightarrow> date \<Rightarrow> Article \<Rightarrow> int" where
  "age_days L today a =
     (case try_parse_iso_date L (published_at a) of
        None \<Rightarrow> 999
      | Some pub \<Rightarrow> \<bar>toordinal today - toordinal pub\<bar>)"

definition recency :: "int \<Rightarrow> real" where
  "recency age =
     (if age \<le> 0 then 60 else if age \<le> 1 then 55 else if age \<le> 2 then 50
      else if age \<le> 3 then 45 else if age \<le> 7 then 35 else if age \<le> 14 then 25
      else if age \<le> 30 then 15 else 5)"

definition compute_urgency :: "pylib \<Rightarrow> date \<Rightarrow> Article \<Rightarrow> real" where
  "compute_urgency L today a =
     (let rec = recency (age_days L today a);
          kw_thr = list_or (kw_threat_hits a) (keywords_threat_matched a);
          thr = min (length kw_thr) 10;
          thr_boost = real thr * 4
      in clamp (rec + thr_boost) 0 100)"

definition compute_keyword_intensity :: "Article \<Rightarrow> real" where
  "compute_keyword_intensity a =
     (let kw_nat = list_or (kw_national_hits a) (keywords_national_matched a);
          kw_thr = list_or (kw_threat_hits a) (keywords_threat_matched a);
          total = length kw_nat + length kw_thr
      in clamp (10 * real (min total 10)) 0 100)"

text \<open>The body of the loop of \<open>compute_layer2_scores\<close>, and the loop over the list.\<close>

definition layer2_article :: "pylib \<Rightarrow> date \<Rightarrow> Article \<Rightarrow> Article" where
  "layer2_article L today a =
     (let R = compute_relevance a;
          pts = evidence_points a;
          E_bucket = fst (evidence_bucket_and_numeric pts);
          E_num = snd (evidence_bucket_and_numeric pts);
          U = compute_urgency L today a;
          K = compute_keyword_intensity a;
          Pre = 0.45 * R + 0.25 * U + 0.20 * E_num + 0.10 * K;
          pre = clamp Pre 0 100
      in a\<lparr>relevance_score := Some (clamp R 0 100),
            evidence_strength := Some E_bucket,
            evidence_numeric := Some E_num,
            urgency_score := Some (clamp U 0 100),
            keyword_intensity := Some (clamp K 0 100),
            prepriority_score := Some pre,
            prepriority_bucket := Some (prepriority_bucket_of (Some pre))\<rparr>)"

definition compute_layer2_scores :: "pylib \<Rightarrow> date \<Rightarrow> Article list \<Rightarrow> Article list" where
  "compute_layer2_scores L today articles = map (layer2_article L today) articles"

section \<open>analysis\_layers.py: the risk index\<close>

text \<open>\<open>float(x or d)\<close> on an optional number: \<open>None\<close> and \<open>0.0\<close> are both false.\<close>

definition float_or :: "real option \<Rightarrow> real \<Rightarrow> real" where
  "float_or x d = (case x of None \<Rightarrow> d | Some v \<Rightarrow> if v = 0 then d else v)"



text \<open>
  The constructor of the dataclass \<open>Article\<close>: the six required fields, every other
  field at its declared default.
\<close>

definition new_article ::
  "string \<Rightarrow> string \<Rightarrow> string \<Rightarrow> string \<Rightarrow> string \<Rightarrow> string \<Rightarrow> Article" where
  "new_article i c sn ss u t =
     \<lparr>id' = i, country = c, source_name = sn, source_slug = ss, url = u, title = t,
      published_at = None, author = None, summary = None, content_text = None,
      content_length = 0, extraction_method = [], extraction_notes = [], run_id = None,
      run_created_at = None, fetched_at = None, keywords_matched = [],
      keywords_national_matched = [], keywords_threat_matched = [], national_relevant = None,
      threat_relevant = None, shortlisted = None, kw_national_hits = [], kw_threat_hits = [],
      relevance_score = None, evidence_strength = None, evidence_numeric = None,
      urgency_score = None, keyword_intensity = None, prepriority_score = None,
      prepriority_bucket = None, threat_score = None, threat_level = None,
      threat_vector = None, one_liner_threat = None, reasons = [], risk_index = None,
      truth_score = None, truth_label = None, truth_reasons = [], threat_factors = [],
      raw = []\<rparr>"



text \<open>A library in which every parser fails; the theorems hold for any library.\<close>

definition no_lib :: pylib where
  "no_lib = \<lparr>fromisoformat_date = (\<lambda>_. None), fromisoformat_utc_date = (\<lambda>_. None),
              float_of_str = (\<lambda>_. None), int_of_str = (\<lambda>_. None), str_of = (\<lambda>_. []),
              json_loads = (\<lambda>_. None),
              sha256_hexdigest = (\<lambda>s. s)\<rparr>"

section \<open>analysis\_layers.py: Layer 3\<close>

definition coerce_float :: "pylib \<Rightarrow> pyval \<Rightarrow> real \<Rightarrow> real" where
  "coerce_float L v dflt =
     (case v of
        PInt i \<Rightarrow> real_of_int i
      | PFloat x \<Rightarrow> x
      | PBool b \<Rightarrow> (if b then 1 else 0)
      | PStr s \<Rightarrow> (case float_of_str L s of Some x \<Rightarrow> x | None \<Rightarrow> dflt)
      | _ \<Rightarrow> dflt)"

definition threat_level_from_score :: "real \<Rightarrow> string" where
  "threat_level_from_score t =
     (if t \<ge> 75 then ''CRITICAL'' else if t \<ge> 50 then ''HIGH''
      else if t \<ge> 25 then ''MED'' else ''LOW'')"

definition allowed_vectors :: "string list" where
  "allowed_vectors = [''MILITARY'', ''TERROR'', ''CYBER'', ''DIPLO'', ''ECON'', ''INTERNAL'', ''OTHER'']"

definition clean_vector :: "string \<Rightarrow> string" where
  "clean_vector v = (let u = py_upper (strip v) in if List.member allowed_vectors u then u else ''OTHER'')"

text \<open>\<open>str(v)\<close>\<close>

definition py_str :: "pylib \<Rightarrow> pyval \<Rightarrow> string" where
  "py_str L v = (case v of PStr s \<Rightarrow> s | _ \<Rightarrow> str_of L v)"

text \<open>\<open>m = pat.search(t)\<close> followed by \<open>m.group(0)\<close>: the first match from the left.\<close>

fun find_from :: "rx \<Rightarrow> char option \<Rightarrow> string \<Rightarrow> string option" where
  "find_from r pc [] = (case run r (pc, []) of [] \<Rightarrow> None | st # _ \<Rightarrow> Some [])"
| "find_from r pc (c # cs) =
     (case run r (pc, c # cs) of
        [] \<Rightarrow> find_from r (Some c) cs
      | st # _ \<Rightarrow> Some (take (length (c # cs) - length (snd st)) (c # cs)))"

definition rx_find :: "rx \<Rightarrow> string \<Rightarrow> string option" where
  "rx_find r s = find_from r None s"

text \<open>\<open>\{[\s\S]*\}\<close>\<close>

definition BRACE_PAT :: rx where
  "BRACE_PAT = Seq (lit CHR ''{'') (Seq (Star (Sym (\<lambda>_. True))) (lit CHR ''}''))"

definition as_dict :: "pyval option \<Rightarrow> pydict option" where
  "as_dict v = (case v of Some (PDict d) \<Rightarrow> Some d | _ \<Rightarrow> None)"

definition extract_json_object :: "pylib \<Rightarrow> string \<Rightarrow> pydict option" where
  "extract_json_object L text =
     (if text = [] then None
      else let t = strip text in
        (case as_dict (json_loads L t) of
           Some d \<Rightarrow> Some d
         | None \<Rightarrow>
             (case rx_find BRACE_PAT t of
                None \<Rightarrow> None
              | Some blob \<Rightarrow> as_dict (json_loads L blob))))"

text \<open>The prompt.  \<open>schema_json\<close> is \<open>json.dumps(spec, ensure_ascii=False)\<close>.\<close>

definition schema_json :: string where
  \<open>schema_json = ''{"threat_score": "number 0-100", "threat_level": "LOW|MED|HIGH|CRITICAL (must match score thresholds)", "threat_vector": "MILITARY|TERROR|CYBER|DIPLO|ECON|INTERNAL|OTHER", "one_liner_threat": "one sentence", "reasons": "2-4 short bullet strings"}''\<close>

fun crlf_to_lf :: "string \<Rightarrow> string" where
  "crlf_to_lf [] = []"
| "crlf_to_lf [c] = (if c = CHR 0x0D then [CHR 0x0A] else [c])"
| "crlf_to_lf (c # d # cs) =
     (if c = CHR 0x0D \<and> d = CHR 0x0A then CHR 0x0A # crlf_to_lf cs
      else if c = CHR 0x0D then CHR 0x0A # crlf_to_lf (d # cs)
      else c # crlf_to_lf (d # cs))"

definition sanitize_for_llm :: "string \<Rightarrow> string" where
  "sanitize_for_llm s = crlf_to_lf (filter (\<lambda>c. c \<noteq> CHR 0x00) s)"

definition prompt_header :: "Article \<Rightarrow> string" where
  "prompt_header a =
     ''You are an OSINT threat analyst for Pakistan.\<newline>''
   @ ''Task: Evaluate the threat severity of the article for Pakistan.\<newline>''
   @ ''Output MUST be a single valid JSON object and nothing else.\<newline>''
   @ ''Schema:\<newline>''
   @ schema_json @ ''\<newline>\<newline>''
   @ ''Threat score thresholds:\<newline>''
   @ ''0-24 LOW, 25-49 MED, 50-74 HIGH, 75-100 CRITICAL.\<newline>\<newline>''
   @ ''Article:\<newline>''
   @ ''Title: '' @ sanitize_for_llm (safe_text (Some (title a))) @ ''\<newline>''
   @ ''Published: '' @ sanitize_for_llm (safe_text (published_at a)) @ ''\<newline>''
   @ ''Source: '' @ sanitize_for_llm (safe_text (Some (source_name a))) @ ''\<newline>''
   @ ''SourceCountry: '' @ sanitize_for_llm (safe_text (Some (Article.country a))) @ ''\<newline>''
   @ ''URL: '' @ sanitize_for_llm (safe_text (Some (Article.url a))) @ ''\<newline>''
   @ ''Text:\<newline>''"

definition prompt_footer :: string where
  "prompt_footer = ''\<newline>\<newline>Now output the JSON object.''"

text \<open>
  The loaded model: its tokenizer, giving the number of tokens of a text or raising, and
  its completion call, raising (with the rendering \<open>Type: message\<close> of the exception) or
  giving the text of the first choice.
\<close>

datatype llm_result = Raises string | Completion string

record llm =
  tokenize_len :: "string \<Rightarrow> nat option"
  complete :: "string \<Rightarrow> llm_result"

definition tok_count :: "llm \<Rightarrow> string \<Rightarrow> nat" where
  "tok_count m p = (case tokenize_len m p of Some n \<Rightarrow> n | None \<Rightarrow> max 1 (length p div 3))"

text \<open>
  \<open>a.content_text or a.summary or ""\<close>, and the loop that shrinks the excerpt:
  \<open>int(len(text_slice) * 0.75)\<close> is \<open>3 * len div 4\<close>.
\<close>

definition text_or_summary :: "Article \<Rightarrow> string" where
  "text_or_summary a =
     (if or_empty (content_text a) \<noteq> [] then or_empty (content_text a) else or_empty (summary a))"

function shrink_to_budget :: "llm \<Rightarrow> nat \<Rightarrow> string \<Rightarrow> string \<Rightarrow> string" where
  "shrink_to_budget m max_prompt_tokens header text_slice =
     (if tok_count m (header @ text_slice @ prompt_footer) \<le> max_prompt_tokens
      then header @ text_slice @ prompt_footer
      else if length text_slice \<le> 900
      then header @ (rstrip (take 900 text_slice) @ '' ...[TRUNCATED]'') @ prompt_footer
      else shrink_to_budget m max_prompt_tokens header (take (3 * length text_slice div 4) text_slice))"
  by pat_completeness auto
termination
  by (relation "measure (\<lambda>(m, k, h, t). length t)") auto

definition build_llm_prompt_with_budget :: "Article \<Rightarrow> llm \<Rightarrow> nat \<Rightarrow> string" where
  "build_llm_prompt_with_budget a m max_prompt_tokens =
     shrink_to_budget m max_prompt_tokens (prompt_header a)
       (take 6000 (sanitize_for_llm (safe_text (Some (text_or_summary a)))))"

text \<open>The three ways an article is left when no object was obtained from the model.\<close>

definition str_or :: "string option \<Rightarrow> string \<Rightarrow> string" where
  "str_or s d = (case s of None \<Rightarrow> d | Some t \<Rightarrow> if t = [] then d else t)"

definition llm_error_defaults :: "Article \<Rightarrow> string \<Rightarrow> Article" where
  "llm_error_defaults a msg =
     (let ts = float_or (threat_score a) 0 in
      a\<lparr>threat_score := Some ts,
        threat_level := Some (str_or (threat_level a) (threat_level_from_score (float_or (Some ts) 0))),
        threat_vector := Some (str_or (threat_vector a) ''OTHER''),
        one_liner_threat := Some (str_or (one_liner_threat a) []),
        extraction_notes := extraction_notes a @ [''LLM_ERROR: '' @ msg]\<rparr>)"

definition llm_parse_error_defaults :: "Article \<Rightarrow> Article" where
  "llm_parse_error_defaults a =
     (let ts = (case threat_score a of None \<Rightarrow> 0 | Some t \<Rightarrow> t) in
      a\<lparr>threat_score := Some ts,
        threat_level := Some (str_or (threat_level a) (threat_level_from_score (float_or (Some ts) 0))),
        threat_vector := Some (str_or (threat_vector a) ''OTHER''),
        one_liner_threat := Some (str_or (one_liner_threat a) []),
        extraction_notes := extraction_notes a @ [''LLM_PARSE_ERROR: could not extract JSON'']\<rparr>)"

text \<open>
  The assignments from a parsed object.  \<open>_safe_text(obj.get("one_liner_threat", "") or "")\<close>
  calls \<open>.replace\<close> on the value, which only a text has.
\<close>

definition one_liner_of :: "pyval \<Rightarrow> py_error + string" where
  "one_liner_of v =
     (if \<not> truthy v then Inr []
      else (case v of PStr s \<Rightarrow> Inr (safe_text (Some s)) | _ \<Rightarrow> Inl AttributeError))"

definition reasons_of :: "pylib \<Rightarrow> pyval \<Rightarrow> string list" where
  "reasons_of L v =
     (let rs = (case v of PList xs \<Rightarrow> xs | _ \<Rightarrow> []);
          reasons = take 6 (map (\<lambda>x. strip (py_str L x)) (filter (\<lambda>x. strip (py_str L x) \<noteq> []) rs))
      in if length reasons > 4 then take 4 reasons else reasons)"

definition apply_llm_object :: "pylib \<Rightarrow> Article \<Rightarrow> pydict \<Rightarrow> py_error + Article" where
  "apply_llm_object L a obj =
     (let t = clamp (coerce_float L (dict_get obj ''threat_score'' (PFloat 0)) 0) 0 100;
          tv = dict_get obj ''threat_vector'' (PStr []);
          vec = clean_vector (py_str L (if truthy tv then tv else PStr ''OTHER''))
      in case one_liner_of (dict_get obj ''one_liner_threat'' (PStr [])) of
           Inl e \<Rightarrow> Inl e
         | Inr one \<Rightarrow>
             Inr (a\<lparr>threat_score := Some t,
                    threat_level := Some (threat_level_from_score t),
                    threat_vector := Some vec,
                    one_liner_threat := Some one,
                    reasons := reasons_of L (dict_get obj ''reasons'' (PList []))\<rparr>))"

text \<open>The body of the loop of \<open>run_layer3_llm_scoring\<close>; \<open>if not obj\<close> also holds of \<open>{}\<close>.\<close>

definition score_article :: "pylib \<Rightarrow> llm \<Rightarrow> Article \<Rightarrow> py_error + Article" where
  "score_article L m a =
     (case complete m (build_llm_prompt_with_budget a m 3200) of
        Raises msg \<Rightarrow> Inr (llm_error_defaults a msg)
      | Completion text \<Rightarrow>
          (case extract_json_object L text of
             None \<Rightarrow> Inr (llm_parse_error_defaults a)
           | Some obj \<Rightarrow>
               if obj = [] then Inr (llm_parse_error_defaults a)
               else apply_llm_object L a obj))"

text \<open>
  The loop changes the articles in place; an exception leaves it with the articles
  scored so far changed and the rest as they were.
\<close>

fun layer3_loop :: "pylib \<Rightarrow> llm \<Rightarrow> Article list \<Rightarrow> Article list \<times> py_error option" where
  "layer3_loop L m [] = ([], None)"
| "layer3_loop L m (a # as) =
     (case score_article L m a of
        Inl e \<Rightarrow> (a # as, Some e)
      | Inr a' \<Rightarrow> (a' # fst (layer3_loop L m as), snd (layer3_loop L m as)))"

text \<open>The machine of a run: which files exist, and what loading a model file gives.\<close>

record llm_host =
  isfile :: "string \<Rightarrow> bool"
  load_llama :: "string \<Rightarrow> py_error + llm"

definition run_layer3_llm_scoring ::
  "pylib \<Rightarrow> llm_host \<Rightarrow> Article list \<Rightarrow> string \<Rightarrow> Article list \<times> py_error option" where
  "run_layer3_llm_scoring L host articles model_path =
     (let mp = strip model_path in
      if mp = [] \<or> \<not> isfile host mp
      then (articles, Some (RuntimeError (''Model file not found: '' @ mp)))
      else (case load_llama host mp of
              Inl e \<Rightarrow> (articles, Some e)
            | Inr m \<Rightarrow> layer3_loop L m articles))"

section \<open>A reference reading of JSON texts\<close>

text \<open>
  \<open>json.loads\<close> is a parameter of the model.  For the runs on concrete texts this is a
  reference implementation after the \<open>json\<close> module: white space is blank, tab, line
  feed and carriage return; a number without fraction and exponent is an \<open>int\<close>; a
  repeated key keeps its first place and its last value; control characters inside a
  text, a \<open>\u\<close> escape above 255 and the constants \<open>NaN\<close> and \<open>Infinity\<close> are refused.
  The fuel bounds the number of values read and is the length of the text.
\<close>

definition json_ws :: "char \<Rightarrow> bool" where
  "json_ws c = (c = CHR '' '' \<or> c = CHR 0x09 \<or> c = CHR 0x0A \<or> c = CHR 0x0D)"

definition skip_ws :: "string \<Rightarrow> string" where
  "skip_ws s = dropWhile json_ws s"

definition simple_escape :: "char \<Rightarrow> char option" where
  \<open>simple_escape e =
     (if e = CHR 0x22 then Some (CHR 0x22)
      else if e = CHR 0x5C then Some (CHR 0x5C)
      else if e = CHR ''/'' then Some CHR ''/''
      else if e = CHR ''b'' then Some (CHR 0x08)
      else if e = CHR ''f'' then Some (CHR 0x0C)
      else if e = CHR ''n'' then Some (CHR 0x0A)
      else if e = CHR ''r'' then Some (CHR 0x0D)
      else if e = CHR ''t'' then Some (CHR 0x09)
      else None)\<close>

definition hex_digit :: "char \<Rightarrow> nat option" where
  "hex_digit c =
     (if in_range CHR ''0'' CHR ''9'' c then Some (of_char c - 48)
      else if in_range CHR ''a'' CHR ''f'' c then Some (of_char c - 87)
      else if in_range CHR ''A'' CHR ''F'' c then Some (of_char c - 55)
      else None)"

definition hex4 :: "string \<Rightarrow> char option" where
  "hex4 s =
     (if length s < 4 then None
      else (case map hex_digit (take 4 s) of
              [Some a, Some b, Some c, Some d] \<Rightarrow>
                if a = 0 \<and> b = 0 then Some (char_of (16 * c + d)) else None
            | _ \<Rightarrow> None))"

fun scan_string :: "string \<Rightarrow> (string \<times> string) option" where
  "scan_string [] = None"
| "scan_string (c # cs) =
     (if c = CHR 0x22 then Some ([], cs)
      else if c = CHR 0x5C then
        (case cs of
           [] \<Rightarrow> None
         | e # es \<Rightarrow>
             if e = CHR ''u'' then
               (case hex4 es of
                  None \<Rightarrow> None
                | Some x \<Rightarrow> (case scan_string (drop 4 es) of
                               None \<Rightarrow> None
                             | Some r \<Rightarrow> Some (x # fst r, snd r)))
             else
               (case simple_escape e of
                  None \<Rightarrow> None
                | Some x \<Rightarrow> (case scan_string es of
                               None \<Rightarrow> None
                             | Some r \<Rightarrow> Some (x # fst r, snd r))))
      else if c < CHR 0x20 then None
      else (case scan_string cs of None \<Rightarrow> None | Some r \<Rightarrow> Some (c # fst r, snd r)))"

text \<open>\<open>(-?(?:0|[1-9]\d*))(\.\d+)?([eE][-+]?\d+)?\<close>\<close>

definition int_digits :: "string \<Rightarrow> string" where
  "int_digits s =
     (case s of
        [] \<Rightarrow> []
      | c # cs \<Rightarrow> if c = CHR ''0'' then [c]
                  else if is_digit c then c # takeWhile is_digit cs else [])"

definition frac_digits :: "string \<Rightarrow> string" where
  "frac_digits s =
     (case s of
        [] \<Rightarrow> []
      | c # cs \<Rightarrow> if c = CHR ''.'' \<and> takeWhile is_digit cs \<noteq> [] then takeWhile is_digit cs else [])"

text \<open>The exponent part: the text it takes, and its value.\<close>

definition exp_part :: "string \<Rightarrow> (nat \<times> int) option" where
  "exp_part s =
     (case s of
        [] \<Rightarrow> None
      | c # cs \<Rightarrow>
          if c = CHR ''e'' \<or> c = CHR ''E'' then
            (let signed = (cs \<noteq> [] \<and> (hd cs = CHR ''+'' \<or> hd cs = CHR ''-''));
                 neg = (cs \<noteq> [] \<and> hd cs = CHR ''-'');
                 ds = takeWhile is_digit (if signed then tl cs else cs)
             in if ds = [] then None
                else Some (1 + (if signed then 1 else 0) + length ds,
                           (if neg then - int (digits_to_nat ds) else int (digits_to_nat ds))))
          else None)"

definition parse_number :: "string \<Rightarrow> (pyval \<times> string) option" where
  "parse_number s =
     (let neg = (s \<noteq> [] \<and> hd s = CHR ''-'');
          s1 = (if neg then tl s else s);
          ds = int_digits s1
      in if ds = [] then None
         else
           (let s2 = drop (length ds) s1;
                fs = frac_digits s2;
                s3 = (if fs = [] then s2 else drop (Suc (length fs)) s2);
                ex = exp_part s3;
                s4 = (case ex of None \<Rightarrow> s3 | Some e \<Rightarrow> drop (fst e) s3);
                sgn = (if neg then - 1 else 1)
            in if fs = [] \<and> ex = None then Some (PInt (sgn * int (digits_to_nat ds)), s4)
               else Some (PFloat (real_of_int sgn
                      * (real (digits_to_nat ds) + real (digits_to_nat fs) / 10 ^ length fs)
                      * (case ex of None \<Rightarrow> 1 | Some e \<Rightarrow> 10 powi (snd e))), s4)))"

fun parse_value :: "nat \<Rightarrow> string \<Rightarrow> (pyval \<times> string) option"
  and parse_array_items :: "nat \<Rightarrow> string \<Rightarrow> pyval list \<Rightarrow> (pyval \<times> string) option"
  and parse_object_items :: "nat \<Rightarrow> string \<Rightarrow> pydict \<Rightarrow> (pyval \<times> string) option" where
  "parse_value 0 s = None"
| "parse_value (Suc n) s =
     (if s = [] then None
      else if hd s = CHR 0x22 then
        (case scan_string (tl s) of None \<Rightarrow> None | Some r \<Rightarrow> Some (PStr (fst r), snd r))
      else if hd s = CHR ''{'' then
        (let s' = skip_ws (tl s) in
         if s' \<noteq> [] \<and> hd s' = CHR ''}'' then Some (PDict [], tl s')
         else parse_object_items n s' [])
      else if hd s = CHR ''['' then
        (let s' = skip_ws (tl s) in
         if s' \<noteq> [] \<and> hd s' = CHR '']'' then Some (PList [], tl s')
         else parse_array_items n s' [])
      else if startswith s ''null'' then Some (PNone, drop 4 s)
      else if startswith s ''true'' then Some (PBool True, drop 4 s)
      else if startswith s ''false'' then Some (PBool False, drop 5 s)
      else parse_number s)"
| "parse_array_items 0 s acc = None"
| "parse_array_items (Suc n) s acc =
     (case parse_value n s of
        None \<Rightarrow> None
      | Some r \<Rightarrow>
          (let s' = skip_ws (snd r) in
           if s' = [] then None
           else if hd s' = CHR '']'' then Some (PList (acc @ [fst r]), tl s')
           else if hd s' = CHR '','' then parse_array_items n (skip_ws (tl s')) (acc @ [fst r])
           else None))"
| "parse_object_items 0 s acc = None"
| "parse_object_items (Suc n) s acc =
     (if s = [] \<or> hd s \<noteq> CHR 0x22 then None
      else
        (case scan_string (tl s) of
           None \<Rightarrow> None
         | Some k \<Rightarrow>
             (let s1 = skip_ws (snd k) in
              if s1 = [] \<or> hd s1 \<noteq> CHR '':'' then None
              else
                (case parse_value n (skip_ws (tl s1)) of
                   None \<Rightarrow> None
                 | Some r \<Rightarrow>
                     (let s2 = skip_ws (snd r) in
                      if s2 = [] then None
                      else if hd s2 = CHR ''}'' then Some (PDict (dict_set acc (fst k) (fst r)), tl s2)
                      else if hd s2 = CHR '','' then
                        parse_object_items n (skip_ws (tl s2)) (dict_set acc (fst k) (fst r))
                      else None)))))"

definition json_loads_ref :: "string \<Rightarrow> pyval option" where
  "json_loads_ref s =
     (case parse_value (Suc (length s)) (skip_ws s) of
        None \<Rightarrow> None
      | Some r \<Rightarrow> if skip_ws (snd r) = [] then Some (fst r) else None)"

text \<open>
  The library of the concrete runs: the reference reading of JSON, every other parser
  failing, and the hash standing for its own argument.
\<close>

definition ref_lib :: pylib where
  "ref_lib = no_lib\<lparr>json_loads := json_loads_ref\<rparr>"

section \<open>models.py: the persisted form of an Article\<close>

definition opt_str_val :: "string option \<Rightarrow> pyval" where
  "opt_str_val x = (case x of None \<Rightarrow> PNone | Some s \<Rightarrow> PStr s)"

definition opt_bool_val :: "bool option \<Rightarrow> pyval" where
  "opt_bool_val x = (case x of None \<Rightarrow> PNone | Some b \<Rightarrow> PBool b)"

definition opt_float_val :: "real option \<Rightarrow> pyval" where
  "opt_float_val x = (case x of None \<Rightarrow> PNone | Some v \<Rightarrow> PFloat v)"

definition str_list_val :: "string list \<Rightarrow> pyval" where
  "str_list_val xs = PList (map PStr xs)"

definition to_dict :: "Article \<Rightarrow> pydict" where
  "to_dict a =
     [(''id'', PStr (id' a)),
      (''country'', PStr (Article.country a)),
      (''source_name'', PStr (source_name a)),
      (''source_slug'', PStr (source_slug a)),
      (''url'', PStr (Article.url a)),
      (''title'', PStr (title a)),
      (''published_at'', opt_str_val (published_at a)),
      (''author'', opt_str_val (author a)),
      (''summary'', opt_str_val (summary a)),
      (''content_text'', opt_str_val (content_text a)),
      (''content_length'', PInt (content_length a)),
      (''extraction_method'', PStr (extraction_method a)),
      (''extraction_notes'', str_list_val (extraction_notes a)),
      (''run_id'', opt_str_val (run_id a)),
      (''run_created_at'', opt_str_val (run_created_at a)),
      (''fetched_at'', opt_str_val (fetched_at a)),
      (''keywords_matched'', str_list_val (keywords_matched a)),
      (''keywords_national_matched'', str_list_val (keywords_national_matched a)),
      (''keywords_threat_matched'', str_list_val (keywords_threat_matched a)),
      (''national_relevant'', opt_bool_val (national_relevant a)),
      (''threat_relevant'', opt_bool_val (threat_relevant a)),
      (''shortlisted'', opt_bool_val (shortlisted a)),
      (''kw_national_hits'', str_list_val (kw_national_hits a)),
      (''kw_threat_hits'', str_list_val (kw_threat_hits a)),
      (''relevance_score'', opt_float_val (relevance_score a)),
      (''evidence_strength'', opt_str_val (evidence_strength a)),
      (''evidence_numeric'', opt_float_val (evidence_numeric a)),
      (''urgency_score'', opt_float_val (urgency_score a)),
      (''keyword_intensity'', opt_float_val (keyword_intensity a)),
      (''prepriority_score'', opt_float_val (prepriority_score a)),
      (''prepriority_bucket'', opt_str_val (prepriority_bucket a)),
      (''threat_score'', opt_float_val (threat_score a)),
      (''threat_level'', opt_str_val (threat_level a)),
      (''threat_vector'', opt_str_val (threat_vector a)),
      (''one_liner_threat'', opt_str_val (one_liner_threat a)),
      (''reasons'', str_list_val (reasons a)),
      (''risk_index'', opt_float_val (risk_index a)),
      (''truth_score'', opt_float_val (truth_score a)),
      (''truth_label'', opt_str_val (truth_label a)),
      (''truth_reasons'', str_list_val (truth_reasons a)),
      (''threat_factors'', str_list_val (threat_factors a)),
      (''raw'', PDict (raw a))]"

text \<open>
  \<open>from_dict\<close> reads every key with \<open>d.get\<close>.  The readers below are the conversions
  it applies to the value found; a value that the typed field of the record cannot hold
  is \<open>OutsideModel\<close>.
\<close>

definition bind_err :: "py_error + 'a \<Rightarrow> ('a \<Rightarrow> py_error + 'b) \<Rightarrow> py_error + 'b" where
  "bind_err m f = (case m of Inl e \<Rightarrow> Inl e | Inr x \<Rightarrow> f x)"

text \<open>\<open>list(v)\<close>: the items of a list, the characters of a text, the keys of a dict.\<close>

definition py_list :: "pyval \<Rightarrow> py_error + pyval list" where
  "py_list v =
     (case v of
        PList xs \<Rightarrow> Inr xs
      | PStr s \<Rightarrow> Inr (map (\<lambda>c. PStr [c]) s)
      | PDict kv \<Rightarrow> Inr (map (\<lambda>p. PStr (fst p)) kv)
      | _ \<Rightarrow> Inl TypeError)"

fun strings_of :: "pyval list \<Rightarrow> py_error + string list" where
  "strings_of [] = Inr []"
| "strings_of (PStr s # vs) = bind_err (strings_of vs) (\<lambda>ss. Inr (s # ss))"
| "strings_of (_ # vs) = Inl OutsideModel"

text \<open>\<open>list(v or [])\<close>\<close>

definition read_list :: "pyval \<Rightarrow> py_error + string list" where
  "read_list v = (if \<not> truthy v then Inr [] else bind_err (py_list v) strings_of)"

text \<open>\<open>str(v or "")\<close>\<close>

definition read_str :: "pylib \<Rightarrow> pyval \<Rightarrow> string" where
  "read_str L v = (if \<not> truthy v then [] else py_str L v)"

text \<open>\<open>int(v or 0)\<close>; \<open>int\<close> of a float cuts towards zero.\<close>

definition read_int :: "pylib \<Rightarrow> pyval \<Rightarrow> py_error + int" where
  "read_int L v =
     (if \<not> truthy v then Inr 0
      else (case v of
              PInt i \<Rightarrow> Inr i
            | PBool b \<Rightarrow> Inr 1
            | PFloat x \<Rightarrow> Inr (if 0 \<le> x then \<lfloor>x\<rfloor> else \<lceil>x\<rceil>)
            | PStr s \<Rightarrow> (case int_of_str L s of Some i \<Rightarrow> Inr i | None \<Rightarrow> Inl (ValueError s))
            | _ \<Rightarrow> Inl TypeError))"

text \<open>\<open>dict(v or {})\<close>\<close>

definition read_dict :: "pyval \<Rightarrow> py_error + pydict" where
  "read_dict v =
     (if \<not> truthy v then Inr []
      else (case v of
              PDict kv \<Rightarrow> Inr kv
            | PStr s \<Rightarrow> Inl (ValueError s)
            | PList xs \<Rightarrow> Inl OutsideModel
            | _ \<Rightarrow> Inl TypeError))"

text \<open>The values stored as they are found.\<close>

definition read_opt_str :: "pyval \<Rightarrow> py_error + string option" where
  "read_opt_str v = (case v of PNone \<Rightarrow> Inr None | PStr s \<Rightarrow> Inr (Some s) | _ \<Rightarrow> Inl OutsideModel)"

definition read_opt_bool :: "pyval \<Rightarrow> py_error + bool option" where
  "read_opt_bool v = (case v of PNone \<Rightarrow> Inr None | PBool b \<Rightarrow> Inr (Some b) | _ \<Rightarrow> Inl OutsideModel)"

definition read_opt_float :: "pyval \<Rightarrow> py_error + real option" where
  "read_opt_float v =
     (case v of
        PNone \<Rightarrow> Inr None
      | PFloat x \<Rightarrow> Inr (Some x)
      | PInt i \<Rightarrow> Inr (Some (real_of_int i))
      | _ \<Rightarrow> Inl OutsideModel)"

text \<open>\<open>d.get(k)\<close>\<close>

definition dget :: "pydict \<Rightarrow> string \<Rightarrow> pyval" where
  "dget d k = dict_get d k PNone"

text \<open>\<open>list(d.get(k, []) or []) or list(raw.get(k, []) or [])\<close>\<close>

definition read_list_or_raw :: "pydict \<Rightarrow> pydict \<Rightarrow> string \<Rightarrow> py_error + string list" where
  "read_list_or_raw d raw_d k =
     bind_err (read_list (dict_get d k (PList [])))
       (\<lambda>xs. if xs \<noteq> [] then Inr xs else read_list (dict_get raw_d k (PList [])))"

definition from_dict :: "pylib \<Rightarrow> pydict \<Rightarrow> py_error + Article" where
  "from_dict L d =
     bind_err (read_list (dict_get d ''keywords_matched'' (PList []))) (\<lambda>km.
     bind_err (read_list (dict_get d ''keywords_national_matched'' (PList []))) (\<lambda>kn0.
     bind_err (read_list (dict_get d ''keywords_threat_matched'' (PList []))) (\<lambda>kt.
     bind_err (read_dict (dict_get d ''raw'' (PDict []))) (\<lambda>raw_d.
     bind_err (read_list_or_raw d raw_d ''kw_national_hits'') (\<lambda>kw_nat.
     bind_err (read_list_or_raw d raw_d ''kw_threat_hits'') (\<lambda>kw_thr.
     bind_err (read_opt_str (dget d ''published_at'')) (\<lambda>v_published_at.
     bind_err (read_opt_str (dget d ''author'')) (\<lambda>v_author.
     bind_err (read_opt_str (dget d ''summary'')) (\<lambda>v_summary.
     bind_err (read_opt_str (dget d ''content_text'')) (\<lambda>v_content_text.
     bind_err (read_int L (dict_get d ''content_length'' (PInt 0))) (\<lambda>v_content_length.
     bind_err (read_list (dict_get d ''extraction_notes'' (PList []))) (\<lambda>v_extraction_notes.
     bind_err (read_opt_str (dget d ''run_id'')) (\<lambda>v_run_id.
     bind_err (read_opt_str (dget d ''run_created_at'')) (\<lambda>v_run_created_at.
     bind_err (read_opt_str (dget d ''fetched_at'')) (\<lambda>v_fetched_at.
     bind_err (read_opt_bool (dget d ''national_relevant'')) (\<lambda>v_national_relevant.
     bind_err (read_opt_bool (dget d ''threat_relevant'')) (\<lambda>v_threat_relevant.
     bind_err (read_opt_bool (dget d ''shortlisted'')) (\<lambda>v_shortlisted.
     bind_err (read_opt_float (dget d ''relevance_score'')) (\<lambda>v_relevance_score.
     bind_err (read_opt_str (dget d ''evidence_strength'')) (\<lambda>v_evidence_strength.
     bind_err (read_opt_float (dget d ''evidence_numeric'')) (\<lambda>v_evidence_numeric.
     bind_err (read_opt_float (dget d ''urgency_score'')) (\<lambda>v_urgency_score.
     bind_err (read_opt_float (dget d ''keyword_intensity'')) (\<lambda>v_keyword_intensity.
     bind_err (read_opt_float (dget d ''prepriority_score'')) (\<lambda>v_prepriority_score.
     bind_err (read_opt_str (dget d ''prepriority_bucket'')) (\<lambda>v_prepriority_bucket.
     bind_err (read_opt_float (dget d ''threat_score'')) (\<lambda>v_threat_score.
     bind_err (read_opt_str (dget d ''threat_level'')) (\<lambda>v_threat_level.
     bind_err (read_opt_str (dget d ''threat_vector'')) (\<lambda>v_threat_vector.
     bind_err (read_opt_str (dget d ''one_liner_threat'')) (\<lambda>v_one_liner_threat.
     bind_err (read_list (dict_get d ''reasons'' (PList []))) (\<lambda>v_reasons.
     bind_err (read_opt_float (dget d ''risk_index'')) (\<lambda>v_risk_index.
     bind_err (read_opt_float (dget d ''truth_score'')) (\<lambda>v_truth_score.
     bind_err (read_opt_str (dget d ''truth_label'')) (\<lambda>v_truth_label.
     bind_err (read_list (dict_get d ''truth_reasons'' (PList []))) (\<lambda>v_truth_reasons.
     bind_err (read_list (dict_get d ''threat_factors'' (PList []))) (\<lambda>v_threat_factors.
     Inr \<lparr>id' = read_str L (dict_get d ''id'' (PStr [])),
          country = read_str L (dict_get d ''country'' (PStr [])),
          source_name = read_str L (dict_get d ''source_name'' (PStr [])),
          source_slug = read_str L (dict_get d ''source_slug'' (PStr [])),
          url = read_str L (dict_get d ''url'' (PStr [])),
          title = read_str L (dict_get d ''title'' (PStr [])),
          published_at = v_published_at,
          author = v_author,
          summary = v_summary,
          content_text = v_content_text,
          content_length = v_content_length,
          extraction_method = read_str L (dict_get d ''extraction_method'' (PStr [])),
          extraction_notes = v_extraction_notes,
          run_id = v_run_id,
          run_created_at = v_run_created_at,
          fetched_at = v_fetched_at,
          keywords_matched = km,
          keywords_national_matched = (if km \<noteq> [] \<and> kn0 = [] then fromkeys km else kn0),
          keywords_threat_matched = kt,
          national_relevant = v_national_relevant,
          threat_relevant = v_threat_relevant,
          shortlisted = v_shortlisted,
          kw_national_hits = kw_nat,
          kw_threat_hits = kw_thr,
          relevance_score = v_relevance_score,
          evidence_strength = v_evidence_strength,
          evidence_numeric = v_evidence_numeric,
          urgency_score = v_urgency_score,
          keyword_intensity = v_keyword_intensity,
          prepriority_score = v_prepriority_score,
          prepriority_bucket = v_prepriority_bucket,
          threat_score = v_threat_score,
          threat_level = v_threat_level,
          threat_vector = v_threat_vector,
          one_liner_threat = v_one_liner_threat,
          reasons = v_reasons,
          risk_index = v_risk_index,
          truth_score = v_truth_score,
          truth_label = v_truth_label,
          truth_reasons = v_truth_reasons,
          threat_factors = v_threat_factors,
          raw = raw_d\<rparr>)))))))))))))))))))))))))))))))))))"

section \<open>keywords.py\<close>

text \<open>
  \<open>_clean_keywords\<close>: the keywords trimmed, the empty ones dropped, and of several
  keywords that agree up to case the first one kept.
\<close>

fun uniq_casefold :: "string list \<Rightarrow> string list \<Rightarrow> string list" where
  "uniq_casefold seen [] = []"
| "uniq_casefold seen (k # ks) =
     (if List.member seen (casefold k) then uniq_casefold seen ks
      else k # uniq_casefold (casefold k # seen) ks)"

definition clean_keywords :: "string list \<Rightarrow> string list" where
  "clean_keywords kws = uniq_casefold [] (filter (\<lambda>k. k \<noteq> []) (map strip kws))"

definition normalize_text :: "string \<Rightarrow> string" where
  "normalize_text s = strip (rx_sub (rx_plus rx_space) '' '' (replace_char nbsp '' '' s))"

text \<open>
  \<open>_compile_keyword_patterns\<close>: a keyword of ASCII letters and digits only matches as
  a whole word, any other keyword wherever its text occurs; both regardless of case.
\<close>

definition keyword_pattern :: "string \<Rightarrow> rx" where
  "keyword_pattern k =
     (if rx_fullmatch (rx_plus (Sym is_ascii_alnum)) k then Seq WordB (Seq (str_i k) WordB)
      else str_i k)"

definition compile_keyword_patterns :: "string list \<Rightarrow> (string \<times> rx) list" where
  "compile_keyword_patterns keywords = map (\<lambda>k. (k, keyword_pattern k)) (clean_keywords keywords)"

definition match_keywords :: "string \<Rightarrow> (string \<times> rx) list \<Rightarrow> string list" where
  "match_keywords hay patterns =
     map fst (filter (\<lambda>kp. rx_search (snd kp) (normalize_text hay)) patterns)"

definition article_haystack :: "Article \<Rightarrow> string" where
  "article_haystack a = join_sp
     [title a, or_empty (summary a), or_empty (content_text a), Article.url a, or_empty (author a)]"

definition write_layer1_fields :: "Article \<Rightarrow> string list \<Rightarrow> string list \<Rightarrow> bool \<Rightarrow> Article" where
  "write_layer1_fields a nat_hits thr_hits sl =
     a\<lparr>kw_national_hits := nat_hits,
       kw_threat_hits := thr_hits,
       shortlisted := Some sl,
       keywords_national_matched := nat_hits,
       keywords_threat_matched := thr_hits,
       national_relevant := Some (nat_hits \<noteq> []),
       threat_relevant := Some (if nat_hits \<noteq> [] then thr_hits \<noteq> [] else False),
       keywords_matched := fromkeys (keywords_matched a @ nat_hits @ thr_hits),
       raw := dict_set (dict_set (dict_set (raw a)
                ''kw_national_hits'' (str_list_val nat_hits))
                ''kw_threat_hits'' (str_list_val thr_hits))
                ''kw_shortlisted'' (PBool sl)\<rparr>"

text \<open>The first loop of \<open>shortlist_articles_two_layer\<close>, on one article.\<close>

definition reset_layer1_fields :: "Article \<Rightarrow> Article" where
  "reset_layer1_fields a =
     a\<lparr>kw_national_hits := [],
       kw_threat_hits := [],
       keywords_national_matched := [],
       keywords_threat_matched := [],
       national_relevant := Some False,
       threat_relevant := Some False,
       shortlisted := Some False,
       raw := dict_set (dict_set (dict_set (raw a)
                ''kw_national_hits'' (PList []))
                ''kw_threat_hits'' (PList []))
                ''kw_shortlisted'' (PBool False)\<rparr>"

text \<open>
  The articles are objects changed in place, and the lists returned hold the same
  objects.  Here the list of all articles is the store, a position in it stands for the
  object, and \<open>national_pass\<close> and \<open>threat_pass\<close> are lists of positions.
\<close>

record ShortlistResult =
  articles_all :: "Article list"
  national_pass :: "nat list"
  threat_pass :: "nat list"
  national_total_hits :: nat
  threat_total_hits :: nat

text \<open>
  The second loop: over the articles from position \<open>i\<close> on; it gives the articles
  written, the positions that pass and the number of hits.
\<close>

fun national_loop ::
  "(string \<times> rx) list \<Rightarrow> nat \<Rightarrow> Article list \<Rightarrow> Article list \<times> nat list \<times> nat" where
  "national_loop nat_pats i [] = ([], [], 0)"
| "national_loop nat_pats i (a # as) =
     (let nat_hits = match_keywords (article_haystack a) nat_pats;
          rest = national_loop nat_pats (Suc i) as
      in (write_layer1_fields a nat_hits [] False # fst rest,
          (if nat_hits \<noteq> [] then i # fst (snd rest) else fst (snd rest)),
          length nat_hits + snd (snd rest)))"

text \<open>The third loop: over the positions that passed, changing the store.\<close>

fun threat_loop ::
  "(string \<times> rx) list \<Rightarrow> nat list \<Rightarrow> Article list \<Rightarrow> Article list \<times> nat list \<times> nat" where
  "threat_loop thr_pats [] store = (store, [], 0)"
| "threat_loop thr_pats (i # is) store =
     (let a = store ! i;
          thr_hits = match_keywords (article_haystack a) thr_pats;
          sl = (length (kw_national_hits a) > 0 \<and> length thr_hits > 0);
          rest = threat_loop thr_pats is (store[i := write_layer1_fields a (kw_national_hits a) thr_hits sl])
      in (fst rest,
          (if sl then i # fst (snd rest) else fst (snd rest)),
          length thr_hits + snd (snd rest)))"

definition shortlist_articles_two_layer ::
  "Article list \<Rightarrow> string list \<Rightarrow> string list \<Rightarrow> ShortlistResult" where
  "shortlist_articles_two_layer articles national_keywords threat_keywords =
     (let nat_pats = compile_keyword_patterns national_keywords;
          thr_pats = compile_keyword_patterns threat_keywords;
          l1 = national_loop nat_pats 0 (map reset_layer1_fields articles);
          l2 = threat_loop thr_pats (fst (snd l1)) (fst l1)
      in \<lparr>articles_all = fst l2,
          national_pass = fst (snd l1),
          threat_pass = fst (snd l2),
          national_total_hits = snd (snd l1),
          threat_total_hits = snd (snd l2)\<rparr>)"

text \<open>What the third loop writes on an article that passed the first stage.\<close>

definition threat_write :: "(string \<times> rx) list \<Rightarrow> Article \<Rightarrow> Article" where
  "threat_write P a = write_layer1_fields a (kw_national_hits a)
       (match_keywords (article_haystack a) P)
       (kw_national_hits a \<noteq> [] \<and> match_keywords (article_haystack a) P \<noteq> [])"

section \<open>fetcher.py: utilities\<close>

text \<open>Numbers and dates as \<open>str()\<close> and \<open>date.isoformat()\<close> print them.\<close>

definition digit_char :: "nat \<Rightarrow> char" where
  "digit_char d = ''0123456789'' ! d"

function show_nat :: "nat \<Rightarrow> string" where
  "show_nat n = (if n < 10 then [digit_char n] else show_nat (n div 10) @ [digit_char (n mod 10)])"
  by pat_completeness auto
termination
  by (relation "measure (\<lambda>n. n)") auto

definition show_int :: "int \<Rightarrow> string" where
  "show_int i = (if i < 0 then CHR ''-'' # show_nat (nat (- i)) else show_nat (nat i))"

definition zero_pad :: "nat \<Rightarrow> string \<Rightarrow> string" where
  "zero_pad n s = replicate (n - length s) CHR ''0'' @ s"

definition isoformat :: "date \<Rightarrow> string" where
  "isoformat d = zero_pad 4 (show_nat (year d)) @ ''-'' @ zero_pad 2 (show_nat (month d))
                 @ ''-'' @ zero_pad 2 (show_nat (day d))"

text \<open>\<open>str(x)\<close> of an optional text inside an f-string.\<close>

definition show_opt :: "string option \<Rightarrow> string" where
  "show_opt s = (case s of None \<Rightarrow> ''None'' | Some t \<Rightarrow> t)"

definition ascii_lower :: "string \<Rightarrow> string" where
  "ascii_lower s = map (\<lambda>c. if in_range CHR ''A'' CHR ''Z'' c then set_bit5 True c else c) s"

text \<open>\<open>_safe_slug\<close>\<close>

definition safe_slug :: "string \<Rightarrow> string" where
  "safe_slug s =
     (let s1 = py_lower (strip s);
          s2 = rx_sub (rx_plus (Sym (\<lambda>c. \<not> (in_range CHR ''a'' CHR ''z'' c \<or> is_digit c)))) ''_'' s1;
          s3 = strip_chars CHR ''_'' (rx_sub (rx_plus (lit CHR ''_'')) ''_'' s2)
      in if s3 \<noteq> [] then take 80 s3 else ''source'')"

definition normalize_url :: "string \<Rightarrow> string" where
  "normalize_url u = takeWhile (\<lambda>c. c \<noteq> CHR ''#'') (strip u)"

text \<open>
  \<open>urlparse(u).netloc\<close> and \<open>urlparse(u).path\<close> belong to the library; they are the two
  parameters \<open>netloc\<close> and \<open>path\<close> of the record of the Web below.
\<close>

definition BAD_URL_PARTS :: "string list" where
  "BAD_URL_PARTS =
     [''/tag/'', ''/tags/'', ''/topics/'', ''/topic/'', ''/category/'', ''/categories/'',
      ''/author/'', ''/authors/'', ''/privacy'', ''/terms'', ''/contact'', ''/about'',
      ''/login'', ''/signin'', ''/signup'', ''/register'', ''/epaper'', ''/e-paper'',
      ''javascript:'', ''mailto:'']"

definition ARTICLE_URL_RE :: rx where
  "ARTICLE_URL_RE = alts
     [seqs [lit CHR ''/'', rx_times 4 rx_digit, lit CHR ''/'', rx_times 2 rx_digit, lit CHR ''/'',
            rx_times 2 rx_digit, lit CHR ''/''],
      str_i ''/news/'', str_i ''/article'', str_i ''/story'', str_i ''/stories'',
      str_i ''/latest/'', str_i ''/detail/'', str_i ''/content/'', str_i ''/post/'', str_i ''/posts/'',
      str_i ''/world/'', str_i ''/pakistan/'', str_i ''/international/'', str_i ''/business/'',
      str_i ''/politics/'', str_i ''/sports/'', str_i ''/entertainment/'',
      str_i ''/amp/'', Seq (str_i ''/amp'') Eol,
      seqs [lit CHR ''/'', rx_times 5 rx_digit, Star rx_digit,
            Alt (Sym (\<lambda>c. c = CHR ''-'' \<or> c = CHR ''/'')) Eol]]"

definition LOOSE_ARTICLE_SIGNAL_RE :: rx where
  "LOOSE_ARTICLE_SIGNAL_RE = Alt
     (seqs [rx_times 8 (Sym is_ascii_alnum), Star (Sym is_ascii_alnum), lit CHR ''-'',
            rx_times 6 (Sym (\<lambda>c. is_ascii_alnum c \<or> c = CHR ''-'')),
            Star (Sym (\<lambda>c. is_ascii_alnum c \<or> c = CHR ''-''))])
     (seqs [lit CHR ''/'', rx_times 5 rx_digit, Star rx_digit,
            alts [lit CHR ''-'', lit CHR ''/'', Eol]])"

definition article_id :: "pylib \<Rightarrow> string \<Rightarrow> string \<Rightarrow> string option \<Rightarrow> string" where
  "article_id L slug u pub = take 24 (sha256_hexdigest L (slug @ ''|'' @ u @ ''|'' @ or_empty pub))"

text \<open>
  \<open>_sniff_text\<close>, \<open>_looks_like_html\<close>, \<open>_looks_like_xml\<close> and \<open>_ctype_is_xmlish\<close>.  The
  bytes received are read as Latin-1 text.
\<close>

type_synonym bytes = string

definition sniff_text :: "bytes option \<Rightarrow> nat \<Rightarrow> string" where
  "sniff_text b n =
     (case b of
        None \<Rightarrow> []
      | Some bs \<Rightarrow>
          take n (rx_sub (rx_plus rx_space) '' ''
            (strip (map (\<lambda>c. if c = CHR 0x0D \<or> c = CHR 0x0A then CHR '' '' else c) (take n bs)))))"

definition looks_like_html :: "bytes option \<Rightarrow> bool" where
  "looks_like_html b =
     (let s = py_lower (sniff_text b 400) in
      s \<noteq> [] \<and> list_ex (contains s)
        [''<!doctype html'', ''<html'', ''<head'', ''<body'', ''just a moment'', ''access denied'',
         ''forbidden'', ''attention required'', ''captcha''])"

definition looks_like_xml :: "bytes option \<Rightarrow> bool" where
  "looks_like_xml b =
     (let s = py_lower (sniff_text b 200) in
      s \<noteq> [] \<and> list_ex (startswith s) [''<?xml'', ''<rss'', ''<feed'', ''<urlset'', ''<sitemapindex''])"

definition ctype_is_xmlish :: "string \<Rightarrow> bool" where
  "ctype_is_xmlish ctype =
     (let cl = py_lower ctype in contains cl ''xml'' \<or> contains cl ''rss'' \<or> contains cl ''atom'')"

section \<open>fetcher.py: the Web\<close>

text \<open>
  What lies outside the program: \<open>SmartHTTP.get(url, expect)\<close>, which answers with a
  \<open>FetchResult\<close> and the bytes read; the parsers built on \<open>feedparser\<close> and
  \<open>BeautifulSoup\<close>; the date found in the \<open>meta\<close> tags and JSON-LD of a page by
  \<open>sniff_published_at_fast\<close>; the parts of a URL; and the clock.
\<close>

record web =
  http_get :: "string \<Rightarrow> string \<Rightarrow> FetchResult \<times> bytes option"
  parse_rss_items :: "bytes \<Rightarrow> string \<Rightarrow> RSSItem list"
  discover_feed_links_from_directory_page :: "bytes \<Rightarrow> string \<Rightarrow> string list"
  discover_from_html_listing :: "bytes \<Rightarrow> string \<Rightarrow> string list"
  parse_sitemap_index_urls :: "bytes \<Rightarrow> string \<Rightarrow> string list"
  parse_sitemap_urls :: "bytes \<Rightarrow> string \<Rightarrow> string list"
  page_date :: "bytes \<Rightarrow> string option"
  netloc :: "string \<Rightarrow> string"
  path :: "string \<Rightarrow> string"
  iso_now :: string

definition same_domain :: "web \<Rightarrow> string \<Rightarrow> string \<Rightarrow> bool" where
  "same_domain W base link =
     (if netloc W link = [] then True else py_lower (netloc W base) = py_lower (netloc W link))"

definition is_probably_article_url :: "web \<Rightarrow> string \<Rightarrow> string \<Rightarrow> bool \<Rightarrow> bool" where
  "is_probably_article_url W u0 base_url allow_unknown =
     (let u = normalize_url u0; ul = py_lower u in
      if \<not> startswith u ''http'' then False
      else if list_ex (contains ul) BAD_URL_PARTS then False
      else if contains ul ''/video/'' \<or> contains ul ''/videos/'' \<or> contains ul ''/watch/''
              \<or> contains ul ''/player/'' then False
      else if rx_search ARTICLE_URL_RE u then True
      else if \<not> allow_unknown then False
      else if base_url \<noteq> [] \<and> \<not> same_domain W base_url u then False
      else (let p = (if path W u = [] then ''/'' else path W u) in
            if count_list p CHR ''/'' < 2 then False
            else rx_search LOOSE_ARTICLE_SIGNAL_RE p))"

text \<open>
  The state of a discovery: the candidates found, the log, the requests made to the
  Web so far, in order, and the endpoint and method last tried.
\<close>

record disc_state =
  rss_items :: "RSSItem list"
  url_candidates :: "string list"
  log' :: "string list"
  requests :: "string list"
  endpoint_used :: "string option"
  discovery_method :: string

definition no_data :: "bytes option \<Rightarrow> bool" where
  "no_data d = (case d of None \<Rightarrow> True | Some b \<Rightarrow> b = [])"

definition data_of :: "bytes option \<Rightarrow> bytes" where
  "data_of d = (case d of None \<Rightarrow> [] | Some b \<Rightarrow> b)"

definition add_log :: "string \<Rightarrow> disc_state \<Rightarrow> disc_state" where
  "add_log msg st = st\<lparr>log' := log' st @ [msg]\<rparr>"

definition add_request :: "string \<Rightarrow> disc_state \<Rightarrow> disc_state" where
  "add_request u st = st\<lparr>requests := requests st @ [u]\<rparr>"

definition tag :: "Source \<Rightarrow> string" where
  "tag src = ''['' @ Source.country src @ '' | '' @ name src @ '']''"

definition push_url :: "string \<Rightarrow> disc_state \<Rightarrow> disc_state" where
  "push_url u0 st =
     (let u = normalize_url u0 in
      if u = [] \<or> \<not> startswith u ''http'' then st
      else if List.member (url_candidates st) u then st
      else st\<lparr>url_candidates := url_candidates st @ [u]\<rparr>)"

definition push_rss_item :: "RSSItem \<Rightarrow> disc_state \<Rightarrow> disc_state" where
  "push_rss_item it st =
     (if \<not> startswith (RSSItem.url it) ''http'' then st
      else if list_all (\<lambda>x. RSSItem.url x \<noteq> RSSItem.url it) (rss_items st)
      then st\<lparr>rss_items := rss_items st @ [it]\<rparr>
      else st)"

fun push_rss_until :: "nat \<Rightarrow> RSSItem list \<Rightarrow> disc_state \<Rightarrow> disc_state" where
  "push_rss_until max_candidates [] st = st"
| "push_rss_until max_candidates (it # its) st =
     (let st' = push_rss_item it st in
      if length (rss_items st') \<ge> max_candidates then st'
      else push_rss_until max_candidates its st')"

fun push_urls_until :: "web \<Rightarrow> nat \<Rightarrow> string \<Rightarrow> bool \<Rightarrow> string list \<Rightarrow> disc_state \<Rightarrow> disc_state" where
  "push_urls_until W max_candidates ep_url allow [] st = st"
| "push_urls_until W max_candidates ep_url allow (u # us) st =
     (if is_probably_article_url W u ep_url allow then
        (let st' = push_url u st in
         if length (url_candidates st') \<ge> max_candidates then st'
         else push_urls_until W max_candidates ep_url allow us st')
      else push_urls_until W max_candidates ep_url allow us st)"

text \<open>
  A stable sort into descending order, as \<open>sorted(xs, key=k, reverse=True)\<close> and
  \<open>xs.sort(key=k, reverse=True)\<close> give it: \<open>ge a b\<close> says that the key of \<open>a\<close> is at
  least the key of \<open>b\<close>.
\<close>

fun insert_desc :: "('a \<Rightarrow> 'a \<Rightarrow> bool) \<Rightarrow> 'a \<Rightarrow> 'a list \<Rightarrow> 'a list" where
  "insert_desc ge x [] = [x]"
| "insert_desc ge x (y # ys) = (if ge y x then y # insert_desc ge x ys else x # y # ys)"

definition sort_desc :: "('a \<Rightarrow> 'a \<Rightarrow> bool) \<Rightarrow> 'a list \<Rightarrow> 'a list" where
  "sort_desc ge xs = foldl (\<lambda>acc x. insert_desc ge x acc) [] xs"

definition feed_score :: "web \<Rightarrow> string \<Rightarrow> string \<Rightarrow> nat \<times> nat \<times> int" where
  "feed_score W ep_url u =
     ((if same_domain W ep_url u then 1 else 0),
      (let low = py_lower u in
       if contains low ''rss'' \<or> contains low ''feed'' \<or> contains low ''atom'' then 1 else 0),
      - int (length u))"

definition score_ge :: "nat \<times> nat \<times> int \<Rightarrow> nat \<times> nat \<times> int \<Rightarrow> bool" where
  "score_ge a b =
     (fst a > fst b \<or> (fst a = fst b \<and>
        (fst (snd a) > fst (snd b) \<or> (fst (snd a) = fst (snd b) \<and> snd (snd a) \<ge> snd (snd b)))))"

text \<open>The probing of the feeds of a directory page: the state, and the feed picked.\<close>

fun probe_feeds :: "web \<Rightarrow> nat \<Rightarrow> string list \<Rightarrow> disc_state \<Rightarrow> disc_state \<times> string option" where
  "probe_feeds W max_candidates [] st = (st, None)"
| "probe_feeds W max_candidates (feed_url # fs) st =
     (let r = http_get W feed_url ''xml''; st1 = add_request feed_url st in
      if ok (fst r) \<and> \<not> no_data (snd r)
         \<and> (ctype_is_xmlish (content_type (fst r)) \<or> looks_like_xml (snd r))
         \<and> parse_rss_items W (data_of (snd r)) feed_url \<noteq> []
      then (push_rss_until max_candidates (parse_rss_items W (data_of (snd r)) feed_url) st1,
            Some feed_url)
      else probe_feeds W max_candidates fs st1)"

fun sitemap_children ::
  "web \<Rightarrow> nat \<Rightarrow> string \<Rightarrow> bool \<Rightarrow> string list \<Rightarrow> disc_state \<Rightarrow> disc_state" where
  "sitemap_children W max_candidates ep_url allow [] st = st"
| "sitemap_children W max_candidates ep_url allow (sm # sms) st =
     (let r = http_get W sm ''xml''; st1 = add_request sm st in
      if \<not> ok (fst r) \<or> no_data (snd r) then sitemap_children W max_candidates ep_url allow sms st1
      else
        (let st2 = push_urls_until W max_candidates ep_url allow
                     (parse_sitemap_urls W (data_of (snd r)) ep_url) st1
         in if length (url_candidates st2) \<ge> max_candidates then st2
            else sitemap_children W max_candidates ep_url allow sms st2))"

text \<open>
  One endpoint of each type: the state after it, and whether the loop over the
  endpoints ends with it (\<open>break\<close>) or goes on (\<open>continue\<close>).
\<close>

definition try_rss :: "web \<Rightarrow> Source \<Rightarrow> nat \<Rightarrow> string \<Rightarrow> disc_state \<Rightarrow> disc_state \<times> bool" where
  "try_rss W src max_candidates ep_url st =
     (let r = http_get W ep_url ''xml'';
          st1 = add_request ep_url (st\<lparr>discovery_method := ''rss''\<rparr>)
      in if \<not> ok (fst r) \<or> no_data (snd r)
         then (add_log (tag src @ '' RSS fetch failed: '' @ ep_url @ '' err=''
                         @ show_opt (error (fst r))) st1, False)
         else
           (let items = parse_rss_items W (data_of (snd r)) ep_url;
                st2 = add_log (tag src @ '' RSS parsed: '' @ show_nat (length items)
                                @ '' entries from '' @ ep_url) st1;
                st3 = push_rss_until max_candidates items st2
            in (st3, rss_items st3 \<noteq> [])))"

definition try_feed_directory ::
  "web \<Rightarrow> Source \<Rightarrow> nat \<Rightarrow> string \<Rightarrow> disc_state \<Rightarrow> disc_state \<times> bool" where
  "try_feed_directory W src max_candidates ep_url st =
     (let r = http_get W ep_url ''any'';
          st1 = add_request ep_url (st\<lparr>discovery_method := ''feed_directory''\<rparr>)
      in if \<not> ok (fst r) \<or> no_data (snd r)
         then (add_log (tag src @ '' FEED_DIRECTORY fetch failed: '' @ ep_url @ '' err=''
                         @ show_opt (error (fst r))) st1, False)
         else
           (let feed_links = discover_feed_links_from_directory_page W (data_of (snd r)) ep_url;
                st2 = add_log (tag src @ '' FEED_DIRECTORY found '' @ show_nat (length feed_links)
                                @ '' feed candidates'') st1;
                sorted = sort_desc (\<lambda>a b. score_ge (feed_score W ep_url a) (feed_score W ep_url b))
                           feed_links;
                p = probe_feeds W max_candidates (take 15 sorted) st2
            in (case snd p of
                  Some picked \<Rightarrow>
                    (add_log (tag src @ '' FEED_DIRECTORY picked feed: '' @ picked @ '' items=''
                               @ show_nat (length (rss_items (fst p)))) (fst p), True)
                | None \<Rightarrow>
                    (add_log (tag src @ '' FEED_DIRECTORY could not validate any feed.'') (fst p),
                     False))))"

definition try_html_listing ::
  "web \<Rightarrow> Source \<Rightarrow> nat \<Rightarrow> bool \<Rightarrow> string \<Rightarrow> disc_state \<Rightarrow> disc_state \<times> bool" where
  "try_html_listing W src max_candidates allow ep_url st =
     (let r = http_get W ep_url ''any'';
          st1 = add_request ep_url (st\<lparr>discovery_method := ''html_listing''\<rparr>)
      in if \<not> ok (fst r) \<or> no_data (snd r)
         then (add_log (tag src @ '' HTML_LISTING fetch failed: '' @ ep_url @ '' err=''
                         @ show_opt (error (fst r))) st1, False)
         else
           (let urls = discover_from_html_listing W (data_of (snd r)) ep_url;
                st2 = add_log (tag src @ '' HTML_LISTING discovered '' @ show_nat (length urls)
                                @ '' urls'') st1;
                st3 = push_urls_until W max_candidates ep_url allow urls st2
            in (st3, url_candidates st3 \<noteq> [])))"

definition try_sitemap_index ::
  "web \<Rightarrow> Source \<Rightarrow> nat \<Rightarrow> bool \<Rightarrow> string \<Rightarrow> disc_state \<Rightarrow> disc_state \<times> bool" where
  "try_sitemap_index W src max_candidates allow ep_url st =
     (let r = http_get W ep_url ''xml'';
          st1 = add_request ep_url (st\<lparr>discovery_method := ''sitemap''\<rparr>)
      in if \<not> ok (fst r) \<or> no_data (snd r)
         then (add_log (tag src @ '' SITEMAP_INDEX fetch failed: '' @ ep_url @ '' err=''
                         @ show_opt (error (fst r))) st1, False)
         else if contains (ascii_lower (data_of (snd r))) ''<sitemapindex''
         then
           (let child_sitemaps = parse_sitemap_index_urls W (data_of (snd r)) ep_url;
                st2 = add_log (tag src @ '' Sitemap index has '' @ show_nat (length child_sitemaps)
                                @ '' child sitemaps'') st1;
                st3 = sitemap_children W max_candidates ep_url allow (take 30 child_sitemaps) st2
            in (st3, url_candidates st3 \<noteq> []))
         else
           (let urls = parse_sitemap_urls W (data_of (snd r)) ep_url;
                st2 = add_log (tag src @ '' Sitemap urlset has '' @ show_nat (length urls)
                                @ '' urls'') st1;
                st3 = push_urls_until W max_candidates ep_url allow urls st2
            in (st3, url_candidates st3 \<noteq> [])))"

definition try_endpoint ::
  "web \<Rightarrow> Source \<Rightarrow> nat \<Rightarrow> bool \<Rightarrow> string \<Rightarrow> string \<Rightarrow> disc_state \<Rightarrow> disc_state \<times> bool" where
  "try_endpoint W src max_candidates allow ep_type ep_url st =
     (if ep_type = ''RSS'' then try_rss W src max_candidates ep_url st
      else if ep_type = ''FEED_DIRECTORY'' then try_feed_directory W src max_candidates ep_url st
      else if ep_type = ''HTML_LISTING'' then try_html_listing W src max_candidates allow ep_url st
      else if ep_type = ''SITEMAP_INDEX'' then try_sitemap_index W src max_candidates allow ep_url st
      else (add_log (tag src @ '' Unknown endpoint type: '' @ ep_type @ '' url='' @ ep_url) st,
            False))"

fun endpoint_loop ::
  "web \<Rightarrow> Source \<Rightarrow> nat \<Rightarrow> bool \<Rightarrow> Endpoint list \<Rightarrow> disc_state \<Rightarrow> disc_state" where
  "endpoint_loop W src max_candidates allow [] st = st"
| "endpoint_loop W src max_candidates allow (ep # eps) st =
     (let ep_type = py_upper (strip (type ep)); ep_url = strip (Endpoint.url ep) in
      if ep_url = [] then endpoint_loop W src max_candidates allow eps st
      else
        (let r = try_endpoint W src max_candidates allow ep_type ep_url
                   (st\<lparr>endpoint_used := Some ep_url\<rparr>)
         in if snd r then fst r else endpoint_loop W src max_candidates allow eps (fst r)))"

section \<open>fetcher.py: discovery\<close>

definition FETCH_MODE_ANY :: string where "FETCH_MODE_ANY = ''ANY''"
definition FETCH_MODE_LATEST_N :: string where "FETCH_MODE_LATEST_N = ''LATEST_N''"
definition FETCH_MODE_ON_DATE :: string where "FETCH_MODE_ON_DATE = ''ON_DATE''"
definition FETCH_MODE_DATE_RANGE :: string where "FETCH_MODE_DATE_RANGE = ''DATE_RANGE''"

definition fetch_modes :: "string list" where
  "fetch_modes = [FETCH_MODE_ANY, FETCH_MODE_LATEST_N, FETCH_MODE_ON_DATE, FETCH_MODE_DATE_RANGE]"

text \<open>The first two statements on \<open>mode\<close>: \<open>(mode or ANY).strip().upper()\<close>, then the test.\<close>

definition normalize_mode :: "string \<Rightarrow> string" where
  "normalize_mode m =
     (let u = py_upper (strip (if m = [] then FETCH_MODE_ANY else m)) in
      if List.member fetch_modes u then u else FETCH_MODE_ANY)"

text \<open>\<open>sniff_published_at_fast\<close>: one request, then the date of the page if it is HTML.\<close>

definition sniff_published_at_fast :: "web \<Rightarrow> string \<Rightarrow> disc_state \<Rightarrow> string option \<times> disc_state" where
  "sniff_published_at_fast W u st =
     (let r = http_get W u ''any''; st1 = add_request u st in
      if \<not> ok (fst r) \<or> no_data (snd r) then (None, st1)
      else if \<not> looks_like_html (snd r) \<and> \<not> contains (py_lower (content_type (fst r))) ''html''
      then (None, st1)
      else (page_date W (data_of (snd r)), st1))"

text \<open>\<open>_iso_to_date\<close> and \<open>_in_date_range\<close>\<close>

definition iso_to_date :: "pylib \<Rightarrow> string option \<Rightarrow> date option" where
  "iso_to_date L iso_str =
     (case iso_str of
        None \<Rightarrow> None
      | Some s0 \<Rightarrow>
          let s = strip s0 in
          if s = [] then None
          else (case fromisoformat_utc_date L (replace_char CHR ''Z'' ''+00:00'' s) of
                  Some d \<Rightarrow> Some d
                | None \<Rightarrow> if rx_match DATE_PREFIX_PAT s then strptime_ymd (take 10 s) else None))"

definition date_less :: "date \<Rightarrow> date \<Rightarrow> bool" where
  "date_less a b =
     (year a < year b \<or> (year a = year b \<and>
        (month a < month b \<or> (month a = month b \<and> day a < day b))))"

definition in_date_range :: "date option \<Rightarrow> date option \<Rightarrow> date option \<Rightarrow> bool" where
  "in_date_range d start end' =
     (case d of
        None \<Rightarrow> False
      | Some x \<Rightarrow>
          if (case start of None \<Rightarrow> False | Some s \<Rightarrow> date_less x s) then False
          else if (case end' of None \<Rightarrow> False | Some e \<Rightarrow> date_less e x) then False
          else True)"

text \<open>
  \<open>make_article\<close>.  The raw mapping holds the method, the endpoint and the time, and
  for an item of a feed its date once more under \<open>rss\<close>.
\<close>

definition empty_to_none :: "string \<Rightarrow> string option" where
  "empty_to_none s = (if s = [] then None else Some s)"

definition make_article ::
  "pylib \<Rightarrow> web \<Rightarrow> Source \<Rightarrow> string \<Rightarrow> disc_state \<Rightarrow> string \<Rightarrow> string \<Rightarrow> string \<Rightarrow> string
     \<Rightarrow> string option \<Rightarrow> string \<Rightarrow> pydict \<Rightarrow> Article" where
  "make_article L W src slug st u ttl auth summ pub method raw_extra =
     (let url2 = normalize_url u in
      (new_article (article_id L slug url2 pub) (Source.country src) (name src) slug url2
         (if ttl \<noteq> [] then ttl else url2))
       \<lparr>published_at := pub,
        author := empty_to_none auth,
        summary := empty_to_none summ,
        extraction_method := method,
        raw := [(''discovery_method'', PStr (discovery_method st)),
                (''endpoint_used'', opt_str_val (endpoint_used st)),
                (''fetched_at'', PStr (iso_now W))] @ raw_extra\<rparr>)"

fun items_from_rss ::
  "pylib \<Rightarrow> web \<Rightarrow> Source \<Rightarrow> string \<Rightarrow> disc_state \<Rightarrow> nat \<Rightarrow> RSSItem list \<Rightarrow> string list
     \<Rightarrow> Article list \<Rightarrow> Article list" where
  "items_from_rss L W src slug st max_candidates [] seen items = items"
| "items_from_rss L W src slug st max_candidates (it # its) seen items =
     (if List.member seen (RSSItem.url it)
      then items_from_rss L W src slug st max_candidates its seen items
      else
        (let items' = items @ [make_article L W src slug st (RSSItem.url it) (RSSItem.title it)
                 (RSSItem.author it) (RSSItem.summary it) (RSSItem.published_at it) ''rss''
                 [(''rss'', PDict [(''published_at'', opt_str_val (RSSItem.published_at it))])]]
         in if length items' \<ge> max_candidates then items'
            else items_from_rss L W src slug st max_candidates its (RSSItem.url it # seen) items'))"

fun items_from_urls ::
  "pylib \<Rightarrow> web \<Rightarrow> Source \<Rightarrow> string \<Rightarrow> disc_state \<Rightarrow> nat \<Rightarrow> string list \<Rightarrow> string list
     \<Rightarrow> Article list \<Rightarrow> Article list" where
  "items_from_urls L W src slug st max_candidates [] seen items = items"
| "items_from_urls L W src slug st max_candidates (u # us) seen items =
     (if List.member seen u
      then items_from_urls L W src slug st max_candidates us seen items
      else
        (let items' = items @ [make_article L W src slug st u [] [] [] None
                 (if discovery_method st \<noteq> [] then discovery_method st else ''listing'') []]
         in if length items' \<ge> max_candidates then items'
            else items_from_urls L W src slug st max_candidates us (u # seen) items'))"

text \<open>
  The sniffing of the dates that are missing.  The articles of \<open>missing\<close> are the
  articles of \<open>items\<close> themselves, so the loop runs over \<open>items\<close> and counts the
  missing ones in \<open>idx\<close>.
\<close>

definition is_missing :: "Article \<Rightarrow> bool" where
  "is_missing a = (or_empty (published_at a) = [])"

text \<open>The body of the loop on one article that misses its date.\<close>

definition sniff_article :: "pylib \<Rightarrow> string \<Rightarrow> Article \<Rightarrow> string option \<Rightarrow> Article" where
  "sniff_article L slug a pub_iso =
     (if or_empty pub_iso \<noteq> []
      then a\<lparr>published_at := pub_iso, id' := article_id L slug (Article.url a) pub_iso\<rparr>
      else a\<lparr>extraction_notes := extraction_notes a @ [''date_sniff_failed'']\<rparr>)"

definition sniff_progress :: "Source \<Rightarrow> nat \<Rightarrow> nat \<Rightarrow> disc_state \<Rightarrow> disc_state" where
  "sniff_progress src n_missing idx st =
     (if (idx + 1) mod 25 = 0
      then add_log (tag src @ '' Date sniff progress: '' @ show_nat (idx + 1) @ ''/''
                     @ show_nat n_missing) st
      else st)"

fun sniff_loop ::
  "pylib \<Rightarrow> web \<Rightarrow> Source \<Rightarrow> string \<Rightarrow> nat \<Rightarrow> nat \<Rightarrow> Article list \<Rightarrow> disc_state
     \<Rightarrow> Article list \<times> disc_state" where
  "sniff_loop L W src slug n_missing idx [] st = ([], st)"
| "sniff_loop L W src slug n_missing idx (a # as) st =
     (if is_missing a
      then (sniff_article L slug a (fst (sniff_published_at_fast W (Article.url a) st))
             # fst (sniff_loop L W src slug n_missing (Suc idx) as
                      (sniff_progress src n_missing idx (snd (sniff_published_at_fast W (Article.url a) st)))),
           snd (sniff_loop L W src slug n_missing (Suc idx) as
                      (sniff_progress src n_missing idx (snd (sniff_published_at_fast W (Article.url a) st)))))
      else (a # fst (sniff_loop L W src slug n_missing idx as st),
            snd (sniff_loop L W src slug n_missing idx as st)))"

text \<open>The order of the final sort: by \<open>(1 if d else 0, d)\<close> with \<open>d = published_at or ""\<close>.\<close>

fun str_le :: "string \<Rightarrow> string \<Rightarrow> bool" where
  "str_le [] t = True"
| "str_le (c # cs) [] = False"
| "str_le (c # cs) (d # ds) = (c < d \<or> (c = d \<and> str_le cs ds))"

definition sort_key :: "Article \<Rightarrow> nat \<times> string" where
  "sort_key a = (let d = or_empty (published_at a) in ((if d \<noteq> [] then 1 else 0), d))"

definition key_ge :: "nat \<times> string \<Rightarrow> nat \<times> string \<Rightarrow> bool" where
  "key_ge a b = (fst a > fst b \<or> (fst a = fst b \<and> str_le (snd b) (snd a)))"

record discovery_args =
  limit_items :: int
  mode :: string
  latest_n :: "int option"
  on_date :: "date option"
  date_from :: "date option"
  date_to :: "date option"
  prefetch_multiplier :: int
  allow_unknown_article_urls :: bool

text \<open>The declared defaults of the keyword arguments.\<close>

definition default_args :: discovery_args where
  "default_args = \<lparr>limit_items = 100, mode = FETCH_MODE_ANY, latest_n = None, on_date = None,
     date_from = None, date_to = None, prefetch_multiplier = 6,
     allow_unknown_article_urls = False\<rparr>"

definition target_count :: "discovery_args \<Rightarrow> nat" where
  "target_count args =
     (let t = (case latest_n args of
                 None \<Rightarrow> limit_items args
               | Some n \<Rightarrow> if n > 0 then n else limit_items args)
      in if t \<le> 0 then 1 else nat t)"

text \<open>The end of the function, from the sort on.\<close>

definition finish_discovery ::
  "Source \<Rightarrow> string \<Rightarrow> nat \<Rightarrow> Article list \<Rightarrow> disc_state \<Rightarrow> Article list \<times> string list" where
  "finish_discovery src m target_n items st =
     (let sorted = (if m = FETCH_MODE_LATEST_N \<or> m = FETCH_MODE_ON_DATE \<or> m = FETCH_MODE_DATE_RANGE
                    then sort_desc (\<lambda>a b. key_ge (sort_key a) (sort_key b)) items else items);
          out = take target_n sorted
      in (out, log' st @ [tag src @ '' Discovery='' @ discovery_method st @ '' endpoint=''
                @ show_opt (endpoint_used st) @ '' mode='' @ m @ '' returned=''
                @ show_nat (length out) @ '' (target='' @ show_nat target_n @ '')'']))"

text \<open>
  \<open>fetch_discovery_items\<close>, after the mode has been normalised.  The result is what the
  function returns or raises, and the requests made to the Web up to then.
\<close>

definition discover ::
  "pylib \<Rightarrow> web \<Rightarrow> Source \<Rightarrow> discovery_args \<Rightarrow> string
     \<Rightarrow> (py_error + Article list \<times> string list) \<times> string list" where
  "discover L W src args m =
     (let source_slug = safe_slug (name src);
          target_n = target_count args;
          want_date_filter = (m = FETCH_MODE_ON_DATE \<or> m = FETCH_MODE_DATE_RANGE);
          max_candidates = max (target_n * nat (max 1 (prefetch_multiplier args))) target_n;
          enabled_endpoints = filter Endpoint.enabled (endpoints src)
      in if enabled_endpoints = []
         then (Inr ([], [tag src @ '' No enabled endpoints configured.'']), [])
         else
           (let st = endpoint_loop W src max_candidates (allow_unknown_article_urls args)
                       enabled_endpoints
                       \<lparr>rss_items = [], url_candidates = [], log' = [], requests = [],
                        endpoint_used = None, discovery_method = []\<rparr>
            in if endpoint_used st = None
               then (Inr ([], [tag src @ '' No endpoint used (configuration issue).'']), requests st)
               else
                 (let items = (if rss_items st \<noteq> []
                               then items_from_rss L W src source_slug st max_candidates
                                      (rss_items st) [] []
                               else items_from_urls L W src source_slug st max_candidates
                                      (url_candidates st) [] []);
                      n_missing = length (filter is_missing items);
                      st1 = (if want_date_filter \<and> n_missing > 0
                             then add_log (tag src @ '' Date filter enabled; sniffing published dates for ''
                                            @ show_nat n_missing @ '' items...'') st
                             else st);
                      sn = (if want_date_filter
                            then sniff_loop L W src source_slug n_missing 0 items st1
                            else (items, st1))
                  in if m = FETCH_MODE_ON_DATE then
                       (case on_date args of
                          None \<Rightarrow> (Inl (ValueError ''mode=ON_DATE requires on_date=<datetime.date>''),
                                   requests (snd sn))
                        | Some od \<Rightarrow>
                            (let kept = filter (\<lambda>a. iso_to_date L (published_at a) = Some od) (fst sn);
                                 st2 = add_log (tag src @ '' ON_DATE='' @ isoformat od @ '' kept ''
                                                 @ show_nat (length kept) @ '' items'') (snd sn)
                             in (Inr (finish_discovery src m target_n kept st2), requests st2)))
                     else if m = FETCH_MODE_DATE_RANGE then
                       (if date_from args = None \<and> date_to args = None
                        then (Inl (ValueError ''mode=DATE_RANGE requires date_from and/or date_to''),
                              requests (snd sn))
                        else
                          (let kept = filter (\<lambda>a. in_date_range (iso_to_date L (published_at a))
                                                    (date_from args) (date_to args)) (fst sn);
                               st2 = add_log (tag src @ '' DATE_RANGE ''
                                        @ (case date_from args of None \<Rightarrow> ''...'' | Some d \<Rightarrow> isoformat d)
                                        @ '' -> ''
                                        @ (case date_to args of None \<Rightarrow> ''...'' | Some d \<Rightarrow> isoformat d)
                                        @ '' kept '' @ show_nat (length kept) @ '' items'') (snd sn)
                           in (Inr (finish_discovery src m target_n kept st2), requests st2)))
                     else (Inr (finish_discovery src m target_n (fst sn) (snd sn)),
                           requests (snd sn)))))"

definition fetch_discovery_items ::
  "pylib \<Rightarrow> web \<Rightarrow> Source \<Rightarrow> discovery_args
     \<Rightarrow> (py_error + Article list \<times> string list) \<times> string list" where
  "fetch_discovery_items L W src args = discover L W src args (normalize_mode (mode args))"

section \<open>Concrete inputs\<close>

text \<open>A model that answers every prompt with the same text and has no tokenizer.\<close>

definition const_llm :: "string \<Rightarrow> llm" where
  "const_llm reply = \<lparr>tokenize_len = (\<lambda>_. None), complete = (\<lambda>_. Completion reply)\<rparr>"

text \<open>The completion of the Layer-3 scenario of the specification.\<close>

definition scenario_completion :: string where
  \<open>scenario_completion = ''blah blah {"threat_score": 82, "threat_vector": "bomb", "reasons": ["a","b","c","d","e"]} trailing junk''\<close>


text \<open>
  An article of an older run, with \<open>keywords_matched\<close> only, and an article as the
  shortlist filter leaves it.
\<close>

definition legacy_article :: Article where
  "legacy_article = (new_article ''i'' ''c'' ''n'' ''s'' ''u'' ''t'')\<lparr>keywords_matched := [''bomb'']\<rparr>"

definition filtered_article :: Article where
  "filtered_article = (new_article ''i'' ''c'' ''n'' ''s'' ''u'' ''t'')
     \<lparr>keywords_matched := [''Lahore'', ''bomb''], keywords_national_matched := [''Lahore''],
      keywords_threat_matched := [''bomb''], national_relevant := Some True,
      threat_relevant := Some True, shortlisted := Some True,
      kw_national_hits := [''Lahore''], kw_threat_hits := [''bomb''],
      raw := [(''kw_national_hits'', PList [PStr ''Lahore'']),
              (''kw_threat_hits'', PList [PStr ''bomb'']), (''kw_shortlisted'', PBool True)]\<rparr>"

text \<open>Two articles that carry values of an earlier pass of the filter.\<close>

definition stale_articles :: "Article list" where
  "stale_articles =
     [(new_article ''1'' ''PK'' ''Dawn'' ''dawn'' ''u1'' ''Bomb blast in Lahore'')
        \<lparr>kw_threat_hits := [''flood''], shortlisted := Some False\<rparr>,
      (new_article ''2'' ''PK'' ''Dawn'' ''dawn'' ''u2'' ''Cricket final'')
        \<lparr>kw_national_hits := [''Karachi''], kw_threat_hits := [''attack''],
         shortlisted := Some True\<rparr>]"

section \<open>Properties of the risk index\<close>






section \<open>Properties of Layer 2\<close>

lemma layer2_article_frame:
  "(layer2_article L today a)\<lparr>relevance_score := relevance_score a,
       evidence_strength := evidence_strength a, evidence_numeric := evidence_numeric a,
       urgency_score := urgency_score a, keyword_intensity := keyword_intensity a,
       prepriority_score := prepriority_score a,
       prepriority_bucket := prepriority_bucket a\<rparr> = a"
  by (simp add: layer2_article_def Let_def)

lemma layer2_article_assigns:
  "relevance_score (layer2_article L today a) \<noteq> None
   \<and> evidence_strength (layer2_article L today a) \<noteq> None
   \<and> evidence_numeric (layer2_article L today a) \<noteq> None
   \<and> urgency_score (layer2_article L today a) \<noteq> None
   \<and> keyword_intensity (layer2_article L today a) \<noteq> None
   \<and> prepriority_score (layer2_article L today a) \<noteq> None
   \<and> prepriority_bucket (layer2_article L today a) \<noteq> None"
  by (simp add: layer2_article_def Let_def)

text \<open>
  C9: \<open>compute_layer2_scores\<close> keeps the length of the list; on every article it sets
  the seven Layer-2 fields, and putting the old values of these seven fields back gives
  the article as it was, so that no other field has changed.
\<close>

theorem compute_layer2_scores_frame:
  assumes "i < length articles"
  shows "length (compute_layer2_scores L today articles) = length articles
   \<and> (let a = articles ! i; b = compute_layer2_scores L today articles ! i in
        relevance_score b \<noteq> None \<and> evidence_strength b \<noteq> None \<and> evidence_numeric b \<noteq> None
      \<and> urgency_score b \<noteq> None \<and> keyword_intensity b \<noteq> None \<and> prepriority_score b \<noteq> None
      \<and> prepriority_bucket b \<noteq> None
      \<and> b\<lparr>relevance_score := relevance_score a, evidence_strength := evidence_strength a,
            evidence_numeric := evidence_numeric a, urgency_score := urgency_score a,
            keyword_intensity := keyword_intensity a, prepriority_score := prepriority_score a,
            prepriority_bucket := prepriority_bucket a\<rparr> = a)"
  using assms layer2_article_frame [where L = L and today = today and a = "articles ! i"]
    layer2_article_assigns [where L = L and today = today and a = "articles ! i"]
  by (simp add: compute_layer2_scores_def Let_def)

theorem compute_layer2_scores_frame_witness:
  "(compute_layer2_scores no_lib \<lparr>year = 2024, month = 3, day = 15\<rparr>
      [new_article ''i'' ''c'' ''n'' ''s'' ''u'' ''t''] ! 0)
      \<lparr>relevance_score := None, evidence_strength := None, evidence_numeric := None,
       urgency_score := None, keyword_intensity := None, prepriority_score := None,
       prepriority_bucket := None\<rparr> = new_article ''i'' ''c'' ''n'' ''s'' ''u'' ''t''"
proof -
  let ?as = "[new_article ''i'' ''c'' ''n'' ''s'' ''u'' ''t'']"
  have "(0::nat) < length ?as" by simp
  from compute_layer2_scores_frame [OF this, where L = no_lib
      and today = "\<lparr>year = 2024, month = 3, day = 15\<rparr>"]
  show ?thesis by (simp add: Let_def new_article_def)
qed

section \<open>Properties of Layer 3\<close>




lemma score_article_object:
  assumes "complete m (build_llm_prompt_with_budget a m 3200) = Completion text"
      and "extract_json_object L text = Some obj" and "obj \<noteq> []"
  shows "score_article L m a = apply_llm_object L a obj"
  using assms by (simp add: score_article_def)







text \<open>
  C5: on the completion of the scenario the whole text is no JSON, the first
  brace-delimited span is the object, and the article ends with threat score 82, level
  CRITICAL, vector OTHER, an empty one-liner and the first four reasons.
\<close>

lemma extract_scenario:
  "extract_json_object ref_lib scenario_completion
     = Some [(''threat_score'', PInt 82), (''threat_vector'', PStr ''bomb''),
             (''reasons'', PList [PStr ''a'', PStr ''b'', PStr ''c'', PStr ''d'', PStr ''e''])]"
  by code_simp

lemma scenario_whole_text_no_json: "json_loads_ref (strip scenario_completion) = None"
  by code_simp

lemma clean_vector_bomb: "clean_vector ''bomb'' = ''OTHER''"
  by code_simp

lemma scenario_reasons:
  "reasons_of ref_lib (PList [PStr ''a'', PStr ''b'', PStr ''c'', PStr ''d'', PStr ''e''])
     = [''a'', ''b'', ''c'', ''d'']"
  by code_simp

theorem layer3_scenario:
  assumes "complete m (build_llm_prompt_with_budget a m 3200) = Completion scenario_completion"
  shows "json_loads_ref (strip scenario_completion) = None
     \<and> score_article ref_lib m a
       = Inr (a\<lparr>threat_score := Some 82, threat_level := Some ''CRITICAL'',
                threat_vector := Some ''OTHER'', one_liner_threat := Some [],
                reasons := [''a'', ''b'', ''c'', ''d'']\<rparr>)"
proof -
  have "score_article ref_lib m a
       = Inr (a\<lparr>threat_score := Some 82, threat_level := Some ''CRITICAL'',
                threat_vector := Some ''OTHER'', one_liner_threat := Some [],
                reasons := [''a'', ''b'', ''c'', ''d'']\<rparr>)"
    by (simp add: score_article_object [OF assms extract_scenario] apply_llm_object_def
        dict_get_def coerce_float_def clamp_def threat_level_from_score_def one_liner_of_def
        py_str_def clean_vector_bomb scenario_reasons Let_def)
  then show ?thesis by (simp add: scenario_whole_text_no_json)
qed

theorem layer3_scenario_witness:
  "reasons (projr (score_article ref_lib (const_llm scenario_completion)
      (new_article ''id'' ''PK'' ''Dawn'' ''dawn'' ''https://example.org/a'' ''t'')))
     = [''a'', ''b'', ''c'', ''d'']"
proof -
  let ?m = "const_llm scenario_completion"
  let ?a = "new_article ''id'' ''PK'' ''Dawn'' ''dawn'' ''https://example.org/a'' ''t''"
  have c: "complete ?m (build_llm_prompt_with_budget ?a ?m 3200) = Completion scenario_completion"
    by (simp add: const_llm_def)
  from layer3_scenario [OF c] show ?thesis by simp
qed

section \<open>Properties of the persisted form\<close>

lemma strings_of_map_PStr: "strings_of (map PStr xs) = Inr xs"
  by (induction xs) (simp_all add: bind_err_def)

lemma read_list_str_list_val: "read_list (str_list_val xs) = Inr xs"
  using strings_of_map_PStr [of xs]
  by (cases xs) (simp_all add: read_list_def str_list_val_def py_list_def bind_err_def)

lemma read_str_PStr: "read_str L (PStr s) = s"
  by (simp add: read_str_def py_str_def)

lemma read_int_PInt: "read_int L (PInt i) = Inr i"
  by (simp add: read_int_def)

lemma read_dict_PDict: "read_dict (PDict kv) = Inr kv"
  by (simp add: read_dict_def)

lemma read_opt_str_val: "read_opt_str (opt_str_val x) = Inr x"
  by (simp add: read_opt_str_def opt_str_val_def split: option.splits)

lemma read_opt_bool_val: "read_opt_bool (opt_bool_val x) = Inr x"
  by (simp add: read_opt_bool_def opt_bool_val_def split: option.splits)

lemma read_opt_float_val: "read_opt_float (opt_float_val x) = Inr x"
  by (simp add: read_opt_float_def opt_float_val_def split: option.splits)

lemmas readers = read_list_str_list_val read_str_PStr read_int_PInt read_dict_PDict
  read_opt_str_val read_opt_bool_val read_opt_float_val

lemma to_dict_kw_national_hits:
  "dict_get (to_dict a) ''kw_national_hits'' x = str_list_val (kw_national_hits a)"
  by (simp add: to_dict_def dict_get_def)

lemma to_dict_kw_threat_hits:
  "dict_get (to_dict a) ''kw_threat_hits'' x = str_list_val (kw_threat_hits a)"
  by (simp add: to_dict_def dict_get_def)

lemma read_list_or_raw_kept:
  assumes "dict_get d k (PList []) = str_list_val xs"
      and "xs \<noteq> [] \<or> \<not> truthy (dict_get raw_d k (PList []))"
  shows "read_list_or_raw d raw_d k = Inr xs"
proof (cases "xs = []")
  case True
  with assms(2) have "read_list (dict_get raw_d k (PList [])) = Inr []"
    by (simp add: read_list_def)
  with True assms(1) show ?thesis
    by (simp add: read_list_or_raw_def read_list_str_list_val bind_err_def)
next
  case False
  with assms(1) show ?thesis
    by (simp add: read_list_or_raw_def read_list_str_list_val bind_err_def)
qed

text \<open>
  C8, amended: \<open>from_dict (to_dict a)\<close> gives back \<open>a\<close>, field by field, for every
  article in which the compatibility rules of the loader have nothing to fill in:
  \<open>keywords_national_matched\<close> is not empty when \<open>keywords_matched\<close> is not, and
  \<open>kw_national_hits\<close> and \<open>kw_threat_hits\<close> are not empty when \<open>raw\<close> holds a
  non-empty value under their name.
\<close>

theorem from_dict_to_dict:
  assumes "keywords_matched a = [] \<or> keywords_national_matched a \<noteq> []"
      and "kw_national_hits a \<noteq> [] \<or> \<not> truthy (dict_get (raw a) ''kw_national_hits'' (PList []))"
      and "kw_threat_hits a \<noteq> [] \<or> \<not> truthy (dict_get (raw a) ''kw_threat_hits'' (PList []))"
  shows "from_dict L (to_dict a) = Inr a"
proof -
  have n: "read_list_or_raw (to_dict a) (raw a) ''kw_national_hits'' = Inr (kw_national_hits a)"
    using read_list_or_raw_kept [OF to_dict_kw_national_hits assms(2)] .
  have t: "read_list_or_raw (to_dict a) (raw a) ''kw_threat_hits'' = Inr (kw_threat_hits a)"
    using read_list_or_raw_kept [OF to_dict_kw_threat_hits assms(3)] .
  have r: "read_dict (dict_get (to_dict a) ''raw'' (PDict [])) = Inr (raw a)"
    by (simp add: to_dict_def dict_get_def readers)
  show ?thesis
    unfolding from_dict_def
    using assms(1)
    apply (simp add: r n t bind_err_def)
    apply (simp add: to_dict_def dict_get_def dget_def readers)
    apply blast
    done
qed

theorem from_dict_to_dict_witness:
  "from_dict ref_lib (to_dict filtered_article) = Inr filtered_article"
proof -
  have 1: "keywords_matched filtered_article = [] \<or> keywords_national_matched filtered_article \<noteq> []"
    by (simp add: filtered_article_def)
  have 2: "kw_national_hits filtered_article \<noteq> []
           \<or> \<not> truthy (dict_get (raw filtered_article) ''kw_national_hits'' (PList []))"
    by (simp add: filtered_article_def)
  have 3: "kw_threat_hits filtered_article \<noteq> []
           \<or> \<not> truthy (dict_get (raw filtered_article) ''kw_threat_hits'' (PList []))"
    by (simp add: filtered_article_def)
  from from_dict_to_dict [OF 1 2 3] show ?thesis .
qed

text \<open>
  C8, as stated, fails: the loader carries \<open>keywords_matched\<close> over into an empty
  \<open>keywords_national_matched\<close>, so an article with the former only does not come back
  as it was.
\<close>

theorem from_dict_carries_keywords_counterexample:
  "from_dict ref_lib (to_dict legacy_article)
     = Inr (legacy_article\<lparr>keywords_national_matched := [''bomb'']\<rparr>)
   \<and> from_dict ref_lib (to_dict legacy_article) \<noteq> Inr legacy_article"
  by (simp add: from_dict_def to_dict_def legacy_article_def new_article_def dict_get_def dget_def
      readers bind_err_def read_list_or_raw_def fromkeys_def read_list_def
      opt_str_val_def opt_bool_val_def opt_float_val_def str_list_val_def py_list_def
      read_opt_str_def read_opt_bool_def read_opt_float_def)

section \<open>Properties of the shortlist filter\<close>

lemma haystack_write [simp]:
  "article_haystack (write_layer1_fields a n t s) = article_haystack a"
  by (simp add: article_haystack_def write_layer1_fields_def)

lemma haystack_reset [simp]: "article_haystack (reset_layer1_fields a) = article_haystack a"
  by (simp add: article_haystack_def reset_layer1_fields_def)

lemma write_fields [simp]:
  "kw_national_hits (write_layer1_fields a n t s) = n"
  "kw_threat_hits (write_layer1_fields a n t s) = t"
  "shortlisted (write_layer1_fields a n t s) = Some s"
  by (simp_all add: write_layer1_fields_def)

lemma national_loop_length [simp]: "length (fst (national_loop P i as)) = length as"
  by (induction as arbitrary: i) (simp_all add: Let_def)

lemma national_loop_nth:
  "j < length as \<Longrightarrow>
   fst (national_loop P i as) ! j
     = write_layer1_fields (as ! j) (match_keywords (article_haystack (as ! j)) P) [] False"
proof (induction as arbitrary: i j)
  case Nil then show ?case by simp
next
  case (Cons a as) then show ?case by (cases j) (simp_all add: Let_def)
qed

lemma national_loop_pass:
  "fst (snd (national_loop P i as))
     = map (\<lambda>j. i + j) (filter (\<lambda>j. match_keywords (article_haystack (as ! j)) P \<noteq> []) [0..<length as])"
proof (induction as arbitrary: i)
  case Nil then show ?case by simp
next
  case (Cons a as)
  have up: "[0..<length (a # as)] = 0 # map Suc [0..<length as]"
    by (simp add: upt_conv_Cons map_Suc_upt del: upt_Suc)
  show ?case
    unfolding up
    by (simp add: Let_def Cons.IH filter_map comp_def)
qed

lemma threat_loop_length [simp]: "length (fst (threat_loop P is store)) = length store"
  by (induction "is" arbitrary: store) (simp_all add: Let_def)

lemma threat_loop_Cons:
  "threat_loop P (i # is) store =
     (fst (threat_loop P is (store[i := threat_write P (store ! i)])),
      (if kw_national_hits (store ! i) \<noteq> [] \<and> match_keywords (article_haystack (store ! i)) P \<noteq> []
       then i # fst (snd (threat_loop P is (store[i := threat_write P (store ! i)])))
       else fst (snd (threat_loop P is (store[i := threat_write P (store ! i)])))),
      length (match_keywords (article_haystack (store ! i)) P)
        + snd (snd (threat_loop P is (store[i := threat_write P (store ! i)]))))"
  by (simp add: Let_def threat_write_def)

lemma threat_loop_nth:
  "distinct is \<Longrightarrow> \<forall>i \<in> set is. i < length store \<Longrightarrow> j < length store \<Longrightarrow>
   fst (threat_loop P is store) ! j = (if j \<in> set is then threat_write P (store ! j) else store ! j)"
proof (induction "is" arbitrary: store)
  case Nil then show ?case by simp
next
  case (Cons i "is")
  let ?s = "store[i := threat_write P (store ! i)]"
  have "fst (threat_loop P is ?s) ! j = (if j \<in> set is then threat_write P (?s ! j) else ?s ! j)"
    using Cons by (intro Cons.IH) auto
  then show ?case
    using Cons.prems by (auto simp add: threat_loop_Cons nth_list_update simp del: threat_loop.simps)
qed

lemma threat_loop_pass:
  "distinct is \<Longrightarrow> \<forall>i \<in> set is. i < length store \<Longrightarrow>
   fst (snd (threat_loop P is store))
     = filter (\<lambda>i. kw_national_hits (store ! i) \<noteq> [] \<and> match_keywords (article_haystack (store ! i)) P \<noteq> []) is"
proof (induction "is" arbitrary: store)
  case Nil then show ?case by simp
next
  case (Cons i "is")
  let ?s = "store[i := threat_write P (store ! i)]"
  have eq: "\<And>k. k \<in> set is \<Longrightarrow> ?s ! k = store ! k"
    using Cons.prems by (auto simp add: nth_list_update)
  have "fst (snd (threat_loop P is ?s))
     = filter (\<lambda>i. kw_national_hits (?s ! i) \<noteq> [] \<and> match_keywords (article_haystack (?s ! i)) P \<noteq> []) is"
    using Cons.prems by (intro Cons.IH) auto
  also have "\<dots> = filter (\<lambda>i. kw_national_hits (store ! i) \<noteq> [] \<and> match_keywords (article_haystack (store ! i)) P \<noteq> []) is"
    by (rule filter_cong) (simp_all add: eq)
  finally show ?case by (simp add: threat_loop_Cons del: threat_loop.simps)
qed

lemma national_loop_pass0:
  "fst (snd (national_loop P 0 as))
     = filter (\<lambda>j. match_keywords (article_haystack (as ! j)) P \<noteq> []) [0..<length as]"
  by (simp add: national_loop_pass)

text \<open>
  C4: after the filter the store has the length of the input; the positions in
  \<open>threat_pass\<close> are among those in \<open>national_pass\<close>, which are positions of the input;
  and on every article the hit lists are what the keywords match in the haystack of
  that article (threat hits only when there are national hits), \<open>shortlisted\<close> says
  that both are non-empty, and membership in the two lists says the same.  Nothing of
  this depends on the values the fields had before.
\<close>

theorem shortlist_two_layer_funnel:
  assumes r: "r = shortlist_articles_two_layer articles nk tk" and i: "i < length articles"
  shows "length (articles_all r) = length articles
     \<and> set (threat_pass r) \<subseteq> set (national_pass r)
     \<and> set (national_pass r) \<subseteq> {0..<length articles}
     \<and> (let b = articles_all r ! i; hay = article_haystack (articles ! i) in
          shortlisted b = Some (length (kw_national_hits b) > 0 \<and> length (kw_threat_hits b) > 0)
        \<and> kw_national_hits b = match_keywords hay (compile_keyword_patterns nk)
        \<and> kw_threat_hits b = (if kw_national_hits b \<noteq> []
                               then match_keywords hay (compile_keyword_patterns tk) else [])
        \<and> (i \<in> set (national_pass r) \<longleftrightarrow> kw_national_hits b \<noteq> [])
        \<and> (i \<in> set (threat_pass r) \<longleftrightarrow> shortlisted b = Some True))"
proof -
  let ?NP = "compile_keyword_patterns nk" and ?TP = "compile_keyword_patterns tk"
  let ?R = "map reset_layer1_fields articles"
  let ?S1 = "fst (national_loop ?NP 0 ?R)"
  let ?np = "fst (snd (national_loop ?NP 0 ?R))"
  let ?S2 = "fst (threat_loop ?TP ?np ?S1)"
  let ?tp = "fst (snd (threat_loop ?TP ?np ?S1))"
  let ?hay = "\<lambda>j. article_haystack (articles ! j)"
  have all: "articles_all r = ?S2" and np: "national_pass r = ?np" and tp: "threat_pass r = ?tp"
    using r by (simp_all add: shortlist_articles_two_layer_def Let_def)
  have np_eq: "?np = filter (\<lambda>j. match_keywords (?hay j) ?NP \<noteq> []) [0..<length articles]"
    unfolding national_loop_pass0 by (rule filter_cong) simp_all
  have dist: "distinct ?np" and bound: "\<forall>j \<in> set ?np. j < length ?S1"
    unfolding np_eq by simp_all
  have S1: "\<And>j. j < length articles \<Longrightarrow>
      ?S1 ! j = write_layer1_fields (reset_layer1_fields (articles ! j))
                  (match_keywords (?hay j) ?NP) [] False"
    by (simp add: national_loop_nth)
  have tp_eq: "?tp = filter (\<lambda>j. kw_national_hits (?S1 ! j) \<noteq> []
                    \<and> match_keywords (article_haystack (?S1 ! j)) ?TP \<noteq> []) ?np"
    using threat_loop_pass [OF dist bound] .
  have S2: "?S2 ! i = (if i \<in> set ?np then threat_write ?TP (?S1 ! i) else ?S1 ! i)"
    using threat_loop_nth [OF dist bound, of i] i by simp
  have mem: "i \<in> set ?np \<longleftrightarrow> match_keywords (?hay i) ?NP \<noteq> []"
    unfolding np_eq using i by simp
  have 1: "length (articles_all r) = length articles"
    by (simp add: all)
  have 2: "set (threat_pass r) \<subseteq> set (national_pass r)"
    unfolding tp np tp_eq by auto
  have 3: "set (national_pass r) \<subseteq> {0..<length articles}"
    unfolding np np_eq by auto
  have 4: "i \<in> set ?tp \<longleftrightarrow> match_keywords (?hay i) ?NP \<noteq> [] \<and> match_keywords (?hay i) ?TP \<noteq> []"
    unfolding tp_eq using mem i by (auto simp add: S1)
  show ?thesis
    unfolding Let_def all np tp
    using 1 2 3 4 mem i
    by (simp add: all np tp S2 S1 threat_write_def)
qed

lemma stale_first_national:
  "match_keywords (article_haystack (stale_articles ! 0)) (compile_keyword_patterns [''Lahore''])
     = [''Lahore'']"
  by code_simp

lemma stale_first_threat:
  "match_keywords (article_haystack (stale_articles ! 0)) (compile_keyword_patterns [''bomb''])
     = [''bomb'']"
  by code_simp

lemma stale_second_national:
  "match_keywords (article_haystack (stale_articles ! 1)) (compile_keyword_patterns [''Lahore''])
     = []"
  by code_simp

theorem shortlist_two_layer_funnel_witness:
  "kw_threat_hits (articles_all (shortlist_articles_two_layer stale_articles [''Lahore''] [''bomb'']) ! 0)
     = [''bomb'']
   \<and> shortlisted (articles_all (shortlist_articles_two_layer stale_articles [''Lahore''] [''bomb'']) ! 0)
     = Some True
   \<and> kw_national_hits (articles_all (shortlist_articles_two_layer stale_articles [''Lahore''] [''bomb'']) ! 1)
     = []
   \<and> shortlisted (articles_all (shortlist_articles_two_layer stale_articles [''Lahore''] [''bomb'']) ! 1)
     = Some False"
proof -
  have l: "length stale_articles = 2" by (simp add: stale_articles_def)
  have 0: "(0::nat) < length stale_articles" and 1: "(1::nat) < length stale_articles"
    by (simp_all add: l)
  from shortlist_two_layer_funnel [OF refl 0, of "[''Lahore'']" "[''bomb'']"]
       shortlist_two_layer_funnel [OF refl 1, of "[''Lahore'']" "[''bomb'']"]
  show ?thesis
    unfolding Let_def stale_first_national stale_first_threat stale_second_national
    by auto
qed

end
